theory Spec2Isabelle
  imports Main
begin

section \<open>The plugin registry of \<^verbatim>\<open>ckan/lib/plugins.py\<close>\<close>

text \<open>
  The module keeps its registry in module-level globals that the register, reset and
  lookup functions read and write. The model passes these globals around as one
  record. A function that can raise returns a sum: \<open>Inl (e, r)\<close> is the exception
  \<open>e\<close> together with the globals \<open>r\<close> as the raise leaves them (the tables are
  mutated in place, so what was written before the raise stays written), and
  \<open>Inr r\<close> is a normal return.
\<close>

subsection \<open>Providers\<close>

text \<open>
  An \<^verbatim>\<open>IDatasetForm\<close> plugin, as far as registration looks at it: the results of
  \<^verbatim>\<open>is_fallback()\<close> and \<^verbatim>\<open>package_types()\<close>, and whether its class derives from
  \<^verbatim>\<open>DefaultDatasetForm\<close> (the class is documented as a base class for plugins, and
  registration tests \<^verbatim>\<open>isinstance(_, DefaultDatasetForm)\<close>).
\<close>

record IDatasetForm =
  dataset_plugin_name :: string
  dataset_is_fallback :: bool
  package_types :: "string list"
  extends_DefaultDatasetForm :: bool

datatype dataset_form = DefaultDatasetForm | DatasetPlugin IDatasetForm

fun isinstance_DefaultDatasetForm :: "dataset_form \<Rightarrow> bool" where
  "isinstance_DefaultDatasetForm DefaultDatasetForm = True"
| "isinstance_DefaultDatasetForm (DatasetPlugin p) = extends_DefaultDatasetForm p"

text \<open>
  An \<^verbatim>\<open>IGroupForm\<close> plugin. \<open>group_controller_method\<close> is \<open>None\<close> when calling
  \<^verbatim>\<open>plugin.group_controller()\<close> raises \<^verbatim>\<open>AttributeError\<close>; \<open>is_organization_attr\<close>
  is \<open>None\<close> when \<^verbatim>\<open>hasattr(plugin, 'is_organization')\<close> is false.
  \<^verbatim>\<open>DefaultOrganizationForm\<close> is a subclass of \<^verbatim>\<open>DefaultGroupForm\<close>.
\<close>

datatype group_base = NoDefaultBase | ExtendsDefaultGroupForm | ExtendsDefaultOrganizationForm

record IGroupForm =
  group_plugin_name :: string
  group_controller_method :: "string option"
  is_organization_attr :: "bool option"
  group_is_fallback :: bool
  group_types :: "string list"
  group_base_class :: group_base

datatype group_form = DefaultGroupForm | DefaultOrganizationForm | GroupPlugin IGroupForm

fun isinstance_DefaultOrganizationForm :: "group_form \<Rightarrow> bool" where
  "isinstance_DefaultOrganizationForm DefaultGroupForm = False"
| "isinstance_DefaultOrganizationForm DefaultOrganizationForm = True"
| "isinstance_DefaultOrganizationForm (GroupPlugin p) =
     (group_base_class p = ExtendsDefaultOrganizationForm)"

fun isinstance_DefaultGroupForm :: "group_form \<Rightarrow> bool" where
  "isinstance_DefaultGroupForm DefaultGroupForm = True"
| "isinstance_DefaultGroupForm DefaultOrganizationForm = True"
| "isinstance_DefaultGroupForm (GroupPlugin p) = (group_base_class p \<noteq> NoDefaultBase)"

subsection \<open>The globals\<close>

typedecl Blueprint

datatype default_class =
    Class_DefaultDatasetForm | Class_DefaultGroupForm | Class_DefaultOrganizationForm

text \<open>
  One field per module global (the leading underscore dropped). \<open>constructor_calls\<close>
  is not a global of the module: it logs every evaluation of \<^verbatim>\<open>DefaultDatasetForm()\<close>,
  \<^verbatim>\<open>DefaultGroupForm()\<close> and \<^verbatim>\<open>DefaultOrganizationForm()\<close>, most recent first, so
  that how often a default provider is constructed can be stated.
\<close>

record registry =
  package_plugins :: "string \<rightharpoonup> dataset_form"
  default_package_plugin :: "dataset_form option"
  group_plugins :: "string \<rightharpoonup> group_form"
  default_group_plugin :: "group_form option"
  default_organization_plugin :: "group_form option"
  group_controllers :: "string \<rightharpoonup> string"
  group_blueprints :: "string \<rightharpoonup> Blueprint"
  constructor_calls :: "default_class list"

text \<open>The globals as the module's top level initialises them.\<close>

definition module_globals :: registry where
  "module_globals =
     \<lparr>package_plugins = Map.empty, default_package_plugin = None,
      group_plugins = Map.empty, default_group_plugin = None,
      default_organization_plugin = None, group_controllers = Map.empty,
      group_blueprints = Map.empty, constructor_calls = []\<rparr>"

datatype ValueError =
    More_than_one_fallback_IDatasetForm
  | Existing_IDatasetForm string
  | More_than_one_fallback_IGroupForm_organizations
  | More_than_one_fallback_IGroupForm_groups
  | Existing_IGroupForm string

type_synonym outcome = "(ValueError \<times> registry) + registry"

subsection \<open>Reset\<close>

definition reset_package_plugins :: "registry \<Rightarrow> registry" where
  "reset_package_plugins r = r\<lparr>default_package_plugin := None, package_plugins := Map.empty\<rparr>"

definition reset_group_plugins :: "registry \<Rightarrow> registry" where
  "reset_group_plugins r =
     r\<lparr>default_group_plugin := None, default_organization_plugin := None,
       group_plugins := Map.empty, group_controllers := Map.empty\<rparr>"

subsection \<open>Lookup\<close>

definition lookup_package_plugin :: "registry \<Rightarrow> string option \<Rightarrow> dataset_form option" where
  "lookup_package_plugin r package_type =
     (case package_type of
        None \<Rightarrow> default_package_plugin r
      | Some t \<Rightarrow>
          (case package_plugins r t of
             Some plugin \<Rightarrow> Some plugin
           | None \<Rightarrow> default_package_plugin r))"

definition lookup_group_plugin :: "registry \<Rightarrow> string option \<Rightarrow> group_form option" where
  "lookup_group_plugin r group_type =
     (case group_type of
        None \<Rightarrow> default_group_plugin r
      | Some t \<Rightarrow>
          (case group_plugins r t of
             Some plugin \<Rightarrow> Some plugin
           | None \<Rightarrow>
               (if t = ''organization'' then default_organization_plugin r
                else default_group_plugin r)))"

definition lookup_group_controller :: "registry \<Rightarrow> string option \<Rightarrow> string option" where
  "lookup_group_controller r group_type =
     (case group_type of None \<Rightarrow> None | Some t \<Rightarrow> group_controllers r t)"

definition lookup_group_blueprints :: "registry \<Rightarrow> string option \<Rightarrow> Blueprint option" where
  "lookup_group_blueprints r group_type =
     (case group_type of None \<Rightarrow> None | Some t \<Rightarrow> group_blueprints r t)"

text \<open>
  A lookup call as a step on the globals: the value it returns and the globals it
  leaves. None of the three functions declares a global or assigns to one, and
  \<^verbatim>\<open>dict.get\<close> does not insert.
\<close>

datatype lookup_call =
    Lookup_package_plugin "string option"
  | Lookup_group_plugin "string option"
  | Lookup_group_controller "string option"

datatype lookup_return =
    Returned_dataset_form "dataset_form option"
  | Returned_group_form "group_form option"
  | Returned_controller "string option"

fun call_lookup :: "lookup_call \<Rightarrow> registry \<Rightarrow> lookup_return \<times> registry" where
  "call_lookup (Lookup_package_plugin t) r = (Returned_dataset_form (lookup_package_plugin r t), r)"
| "call_lookup (Lookup_group_plugin t) r = (Returned_group_form (lookup_group_plugin r t), r)"
| "call_lookup (Lookup_group_controller t) r = (Returned_controller (lookup_group_controller r t), r)"

fun call_lookups :: "lookup_call list \<Rightarrow> registry \<Rightarrow> lookup_return list \<times> registry" where
  "call_lookups [] r = ([], r)"
| "call_lookups (c # cs) r =
     (case call_lookup c r of
        (v, r') \<Rightarrow> (case call_lookups cs r' of (vs, r'') \<Rightarrow> (v # vs, r'')))"

subsection \<open>Registration of dataset providers\<close>

definition set_default_package_plugin :: "registry \<Rightarrow> registry" where
  "set_default_package_plugin r =
     (if default_package_plugin r = None
      then r\<lparr>default_package_plugin := Some DefaultDatasetForm,
             constructor_calls := Class_DefaultDatasetForm # constructor_calls r\<rparr>
      else r)"

text \<open>The inner loop, over \<^verbatim>\<open>plugin.package_types()\<close>.\<close>

fun package_types_loop :: "IDatasetForm \<Rightarrow> string list \<Rightarrow> registry \<Rightarrow> outcome" where
  "package_types_loop plugin [] r = Inr r"
| "package_types_loop plugin (package_type # rest) r =
     (if package_plugins r package_type \<noteq> None
      then Inl (Existing_IDatasetForm package_type, r)
      else package_types_loop plugin rest
             (r\<lparr>package_plugins := (package_plugins r)(package_type \<mapsto> DatasetPlugin plugin)\<rparr>))"

text \<open>The body of the outer loop, for one plugin.\<close>

definition register_package_plugin :: "IDatasetForm \<Rightarrow> registry \<Rightarrow> outcome" where
  "register_package_plugin plugin r =
     (if dataset_is_fallback plugin
      then (case default_package_plugin r of
              None \<Rightarrow>
                package_types_loop plugin (package_types plugin)
                  (r\<lparr>default_package_plugin := Some (DatasetPlugin plugin)\<rparr>)
            | Some current \<Rightarrow>
                if \<not> isinstance_DefaultDatasetForm current
                then Inl (More_than_one_fallback_IDatasetForm, r)
                else package_types_loop plugin (package_types plugin)
                       (r\<lparr>default_package_plugin := Some (DatasetPlugin plugin)\<rparr>))
      else package_types_loop plugin (package_types plugin) r)"

fun package_plugins_loop :: "IDatasetForm list \<Rightarrow> registry \<Rightarrow> outcome" where
  "package_plugins_loop [] r = Inr r"
| "package_plugins_loop (plugin # rest) r =
     (case register_package_plugin plugin r of
        Inl raised \<Rightarrow> Inl raised
      | Inr r' \<Rightarrow> package_plugins_loop rest r')"

text \<open>
  \<^verbatim>\<open>register_package_plugins()\<close>; its argument is what
  \<^verbatim>\<open>plugins.PluginImplementations(plugins.IDatasetForm)\<close> iterates over.
\<close>

definition register_package_plugins :: "IDatasetForm list \<Rightarrow> registry \<Rightarrow> outcome" where
  "register_package_plugins implementations r =
     (case package_plugins_loop implementations r of
        Inl raised \<Rightarrow> Inl raised
      | Inr r' \<Rightarrow> Inr (set_default_package_plugin r'))"

subsection \<open>Registration of group and organization providers\<close>

definition set_default_group_plugin :: "registry \<Rightarrow> registry" where
  "set_default_group_plugin r =
     (let r1 = (if default_group_plugin r = None
                then r\<lparr>default_group_plugin := Some DefaultGroupForm,
                       constructor_calls := Class_DefaultGroupForm # constructor_calls r\<rparr>
                else r);
          r2 = (if default_organization_plugin r1 = None
                then r1\<lparr>default_organization_plugin := Some DefaultOrganizationForm,
                        constructor_calls := Class_DefaultOrganizationForm # constructor_calls r1\<rparr>
                else r1);
          r3 = (if group_controllers r2 ''group'' = None
                then r2\<lparr>group_controllers := (group_controllers r2)(''group'' \<mapsto> ''group'')\<rparr>
                else r2)
      in (if group_controllers r3 ''organization'' = None
          then r3\<lparr>group_controllers := (group_controllers r3)(''organization'' \<mapsto> ''organization'')\<rparr>
          else r3))"

definition group_controller :: "IGroupForm \<Rightarrow> string" where
  "group_controller plugin =
     (case group_controller_method plugin of None \<Rightarrow> ''group'' | Some name \<Rightarrow> name)"

definition is_organization :: "IGroupForm \<Rightarrow> bool" where
  "is_organization plugin =
     (case is_organization_attr plugin of
        Some flag \<Rightarrow> flag
      | None \<Rightarrow> group_controller plugin = ''organization'')"

fun group_types_loop :: "IGroupForm \<Rightarrow> string list \<Rightarrow> registry \<Rightarrow> outcome" where
  "group_types_loop plugin [] r = Inr r"
| "group_types_loop plugin (group_type # rest) r =
     (if group_plugins r group_type \<noteq> None
      then Inl (Existing_IGroupForm group_type, r)
      else group_types_loop plugin rest
             (r\<lparr>group_plugins := (group_plugins r)(group_type \<mapsto> GroupPlugin plugin),
                group_controllers := (group_controllers r)(group_type \<mapsto> group_controller plugin)\<rparr>))"

definition register_group_plugin :: "IGroupForm \<Rightarrow> registry \<Rightarrow> outcome" where
  "register_group_plugin plugin r =
     (if group_is_fallback plugin
      then (if is_organization plugin
            then (case default_organization_plugin r of
                    None \<Rightarrow>
                      group_types_loop plugin (group_types plugin)
                        (r\<lparr>default_organization_plugin := Some (GroupPlugin plugin)\<rparr>)
                  | Some current \<Rightarrow>
                      if \<not> isinstance_DefaultOrganizationForm current
                      then Inl (More_than_one_fallback_IGroupForm_organizations, r)
                      else group_types_loop plugin (group_types plugin)
                             (r\<lparr>default_organization_plugin := Some (GroupPlugin plugin)\<rparr>))
            else (case default_group_plugin r of
                    None \<Rightarrow>
                      group_types_loop plugin (group_types plugin)
                        (r\<lparr>default_group_plugin := Some (GroupPlugin plugin)\<rparr>)
                  | Some current \<Rightarrow>
                      if \<not> isinstance_DefaultGroupForm current
                      then Inl (More_than_one_fallback_IGroupForm_groups, r)
                      else group_types_loop plugin (group_types plugin)
                             (r\<lparr>default_group_plugin := Some (GroupPlugin plugin)\<rparr>)))
      else group_types_loop plugin (group_types plugin) r)"

fun group_plugins_loop :: "IGroupForm list \<Rightarrow> registry \<Rightarrow> outcome" where
  "group_plugins_loop [] r = Inr r"
| "group_plugins_loop (plugin # rest) r =
     (case register_group_plugin plugin r of
        Inl raised \<Rightarrow> Inl raised
      | Inr r' \<Rightarrow> group_plugins_loop rest r')"

definition register_group_plugins :: "IGroupForm list \<Rightarrow> registry \<Rightarrow> outcome" where
  "register_group_plugins implementations r =
     (case group_plugins_loop implementations r of
        Inl raised \<Rightarrow> Inl raised
      | Inr r' \<Rightarrow> Inr (set_default_group_plugin r'))"

text \<open>The globals an outcome leaves, raised or returned.\<close>

fun globals_after :: "outcome \<Rightarrow> registry" where
  "globals_after (Inl (e, r)) = r"
| "globals_after (Inr r) = r"

fun raised :: "outcome \<Rightarrow> ValueError option" where
  "raised (Inl (e, r)) = Some e"
| "raised (Inr r) = None"

text \<open>
  Two states of the globals that the lookup functions cannot tell apart: they agree
  on every table and fallback slot the module resets. \<open>group_blueprints\<close>, which
  no function of the module writes, and the constructor log are left out.
\<close>

definition same_registry :: "registry \<Rightarrow> registry \<Rightarrow> bool" where
  "same_registry r s \<longleftrightarrow>
     package_plugins r = package_plugins s \<and>
     default_package_plugin r = default_package_plugin s \<and>
     group_plugins r = group_plugins s \<and>
     default_group_plugin r = default_group_plugin s \<and>
     default_organization_plugin r = default_organization_plugin s \<and>
     group_controllers r = group_controllers s"

definition same_outcome :: "outcome \<Rightarrow> outcome \<Rightarrow> bool" where
  "same_outcome x y \<longleftrightarrow>
     raised x = raised y \<and> same_registry (globals_after x) (globals_after y)"

section \<open>Permission labels\<close>

text \<open>
  \<^verbatim>\<open>DefaultPermissionLabels\<close> reads a dataset object, a user object, one configuration
  permission and the results of two actions. The configuration and the actions are
  not part of the module; they are the fields of \<open>site\<close>.
  \<open>organization_list_for_user\<close> gives the \<^verbatim>\<open>id\<close> of each organization the action
  returns for \<^verbatim>\<open>{'permission': 'read'}\<close>, \<open>package_collaborator_list_for_user\<close> the
  \<^verbatim>\<open>package_id\<close> of each row. Ids are strings, so \<^verbatim>\<open>'creator-%s' % id\<close> is the
  prefix followed by the id; \<^verbatim>\<open>owner_org\<close> alone is tested for truth and may be
  \<^verbatim>\<open>None\<close>.
\<close>

record dataset_obj =
  dataset_id :: string
  dataset_state :: string
  dataset_private :: bool
  dataset_owner_org :: "string option"
  dataset_creator_user_id :: string

record user_obj =
  user_id :: string

record site =
  allow_dataset_collaborators :: bool
  organization_list_for_user :: "string \<Rightarrow> string list"
  package_collaborator_list_for_user :: "string \<Rightarrow> string list"

text \<open>Python's truth value of \<^verbatim>\<open>dataset_obj.owner_org\<close>: \<^verbatim>\<open>None\<close> and \<^verbatim>\<open>''\<close> are false.\<close>

fun truthy :: "string option \<Rightarrow> bool" where
  "truthy None = False"
| "truthy (Some s) = (s \<noteq> [])"

definition get_dataset_labels :: "site \<Rightarrow> dataset_obj \<Rightarrow> string list" where
  "get_dataset_labels cfg d =
     (if dataset_state d = ''active'' \<and> \<not> dataset_private d then [''public'']
      else
        (let labels = (if allow_dataset_collaborators cfg
                       then [''collaborator-'' @ dataset_id d] else [])
         in (if truthy (dataset_owner_org d)
             then labels @ [''member-'' @ the (dataset_owner_org d)]
             else labels @ [''creator-'' @ dataset_creator_user_id d])))"

definition get_user_dataset_labels :: "site \<Rightarrow> user_obj option \<Rightarrow> string list" where
  "get_user_dataset_labels cfg u =
     (case u of
        None \<Rightarrow> [''public'']
      | Some user \<Rightarrow>
          [''public''] @ [''creator-'' @ user_id user]
          @ map (\<lambda>org. ''member-'' @ org) (organization_list_for_user cfg (user_id user))
          @ (if allow_dataset_collaborators cfg
             then map (\<lambda>pkg. ''collaborator-'' @ pkg)
                    (package_collaborator_list_for_user cfg (user_id user))
             else []))"

text \<open>
  Visibility by direct inspection of the fields, in the words of the specification
  (section 4.3 and the docstring of \<^verbatim>\<open>DefaultPermissionLabels\<close>), not taken from the
  label functions: everyone reads public active datasets; the members of the owning
  organization read its other datasets; the creator reads a dataset that has no
  organization and is not public; collaborators read the datasets they collaborate
  on when the feature is enabled. A dataset has an owning organization when
  \<^verbatim>\<open>owner_org\<close> is true in Python's sense.
\<close>

definition public_active :: "dataset_obj \<Rightarrow> bool" where
  "public_active d = (dataset_state d = ''active'' \<and> \<not> dataset_private d)"

definition visible_by_field_inspection :: "site \<Rightarrow> user_obj option \<Rightarrow> dataset_obj \<Rightarrow> bool" where
  "visible_by_field_inspection cfg actor d =
     (public_active d \<or>
      (case actor of
         None \<Rightarrow> False
       | Some u \<Rightarrow>
           (\<not> public_active d \<and> truthy (dataset_owner_org d) \<and>
              the (dataset_owner_org d) \<in> set (organization_list_for_user cfg (user_id u)))
         \<or> (\<not> public_active d \<and> \<not> truthy (dataset_owner_org d) \<and>
              dataset_creator_user_id d = user_id u)
         \<or> (allow_dataset_collaborators cfg \<and>
              dataset_id d \<in> set (package_collaborator_list_for_user cfg (user_id u)))))"

subsection \<open>Example inputs\<close>

text \<open>
  A site without the collaborator feature where nobody is a member of anything, and
  one with the feature where user \<open>u2\<close> reads \<open>org-1\<close> and collaborates on \<open>pkg-9\<close>.
\<close>

definition site_plain :: site where
  "site_plain =
     \<lparr>allow_dataset_collaborators = False,
      organization_list_for_user = (\<lambda>uid. []),
      package_collaborator_list_for_user = (\<lambda>uid. [])\<rparr>"

definition site_collab :: site where
  "site_collab =
     \<lparr>allow_dataset_collaborators = True,
      organization_list_for_user = (\<lambda>uid. if uid = ''u2'' then [''org-1''] else []),
      package_collaborator_list_for_user = (\<lambda>uid. if uid = ''u2'' then [''pkg-9''] else [])\<rparr>"

definition draft_of_org1 :: dataset_obj where
  "draft_of_org1 =
     \<lparr>dataset_id = ''pkg-1'', dataset_state = ''draft'', dataset_private = True,
      dataset_owner_org = Some ''org-1'', dataset_creator_user_id = ''u1''\<rparr>"

definition user_u1 :: user_obj where
  "user_u1 = \<lparr>user_id = ''u1''\<rparr>"

definition user_u2 :: user_obj where
  "user_u2 = \<lparr>user_id = ''u2''\<rparr>"

text \<open>
  Dataset plugins: \<open>a\<close> and \<open>c\<close> claim the fallback, \<open>b\<close> declares the type of
  \<open>a\<close> again, \<open>d\<close> and \<open>e\<close> derive from the default class and \<open>e\<close> claims
  the fallback. Group plugins: \<open>g\<close> and
  \<open>h\<close> claim the group fallback, \<open>o\<close> and \<open>m\<close> the organization fallback,
  \<open>n\<close> declares the type of \<open>g\<close> again.
\<close>

definition dataset_plugin_a :: IDatasetForm where
  "dataset_plugin_a =
     \<lparr>dataset_plugin_name = ''plugin_a'', dataset_is_fallback = True,
      package_types = [''a''], extends_DefaultDatasetForm = False\<rparr>"

definition dataset_plugin_b :: IDatasetForm where
  "dataset_plugin_b =
     \<lparr>dataset_plugin_name = ''plugin_b'', dataset_is_fallback = False,
      package_types = [''a''], extends_DefaultDatasetForm = False\<rparr>"

definition dataset_plugin_c :: IDatasetForm where
  "dataset_plugin_c =
     \<lparr>dataset_plugin_name = ''plugin_c'', dataset_is_fallback = True,
      package_types = [''c''], extends_DefaultDatasetForm = False\<rparr>"

definition dataset_plugin_d :: IDatasetForm where
  "dataset_plugin_d =
     \<lparr>dataset_plugin_name = ''plugin_d'', dataset_is_fallback = False,
      package_types = [''d''], extends_DefaultDatasetForm = True\<rparr>"

definition dataset_plugin_e :: IDatasetForm where
  "dataset_plugin_e =
     \<lparr>dataset_plugin_name = ''plugin_e'', dataset_is_fallback = True,
      package_types = [''e''], extends_DefaultDatasetForm = True\<rparr>"

definition group_plugin_g :: IGroupForm where
  "group_plugin_g =
     \<lparr>group_plugin_name = ''plugin_g'', group_controller_method = None,
      is_organization_attr = None, group_is_fallback = True,
      group_types = [''grp''], group_base_class = NoDefaultBase\<rparr>"

definition group_plugin_o :: IGroupForm where
  "group_plugin_o =
     \<lparr>group_plugin_name = ''plugin_o'', group_controller_method = Some ''organization'',
      is_organization_attr = None, group_is_fallback = True,
      group_types = [''agency''], group_base_class = NoDefaultBase\<rparr>"

definition group_plugin_h :: IGroupForm where
  "group_plugin_h =
     \<lparr>group_plugin_name = ''plugin_h'', group_controller_method = Some ''hub'',
      is_organization_attr = Some False, group_is_fallback = True,
      group_types = [''hub''], group_base_class = NoDefaultBase\<rparr>"

definition group_plugin_n :: IGroupForm where
  "group_plugin_n =
     \<lparr>group_plugin_name = ''plugin_n'', group_controller_method = Some ''network'',
      is_organization_attr = None, group_is_fallback = False,
      group_types = [''network'', ''grp''], group_base_class = ExtendsDefaultGroupForm\<rparr>"

definition group_plugin_m :: IGroupForm where
  "group_plugin_m =
     \<lparr>group_plugin_name = ''plugin_m'', group_controller_method = None,
      is_organization_attr = Some True, group_is_fallback = True,
      group_types = [''ministry''], group_base_class = NoDefaultBase\<rparr>"

text \<open>Globals of a process that registered \<open>a\<close> and \<open>g\<close> from the initial state.\<close>

definition registry_in_use :: registry where
  "registry_in_use =
     globals_after (register_group_plugins [group_plugin_g]
       (globals_after (register_package_plugins [dataset_plugin_a] module_globals)))"

section \<open>Properties of the permission labels\<close>

lemma dataset_labels_restricted:
  "\<not> (dataset_state d = ''active'' \<and> \<not> dataset_private d) \<Longrightarrow>
   get_dataset_labels cfg d =
     (if allow_dataset_collaborators cfg then [''collaborator-'' @ dataset_id d] else [])
     @ [if truthy (dataset_owner_org d) then ''member-'' @ the (dataset_owner_org d)
        else ''creator-'' @ dataset_creator_user_id d]"
  by (simp add: get_dataset_labels_def Let_def)

lemma user_labels_set:
  "set (get_user_dataset_labels cfg (Some u)) =
     {''public'', ''creator-'' @ user_id u}
     \<union> (\<lambda>org. ''member-'' @ org) ` set (organization_list_for_user cfg (user_id u))
     \<union> (if allow_dataset_collaborators cfg
        then (\<lambda>pkg. ''collaborator-'' @ pkg) `
               set (package_collaborator_list_for_user cfg (user_id u))
        else {})"
  by (auto simp: get_user_dataset_labels_def)

text \<open>
  Claim C3. \<^verbatim>\<open>get_dataset_labels\<close> returns exactly \<open>public\<close> for an active dataset that
  is not private. For any other dataset it returns the collaborator label of the
  dataset (only when the collaborator feature is enabled) followed by exactly one
  more label: the member label of the owning organization when there is one, the
  creator label otherwise. No result holds a member label and a creator label at
  once.
\<close>

theorem get_dataset_labels_cases:
  "(dataset_state d = ''active'' \<and> \<not> dataset_private d \<longrightarrow>
      get_dataset_labels cfg d = [''public'']) \<and>
   (\<not> (dataset_state d = ''active'' \<and> \<not> dataset_private d) \<longrightarrow>
      get_dataset_labels cfg d =
        (if allow_dataset_collaborators cfg then [''collaborator-'' @ dataset_id d] else [])
        @ [if truthy (dataset_owner_org d) then ''member-'' @ the (dataset_owner_org d)
           else ''creator-'' @ dataset_creator_user_id d]) \<and>
   (\<forall>org creator. \<not> (''member-'' @ org \<in> set (get_dataset_labels cfg d) \<and>
                      ''creator-'' @ creator \<in> set (get_dataset_labels cfg d)))"
proof (intro conjI impI allI)
  assume "dataset_state d = ''active'' \<and> \<not> dataset_private d"
  then show "get_dataset_labels cfg d = [''public'']"
    by (simp add: get_dataset_labels_def)
next
  assume "\<not> (dataset_state d = ''active'' \<and> \<not> dataset_private d)"
  then show "get_dataset_labels cfg d =
        (if allow_dataset_collaborators cfg then [''collaborator-'' @ dataset_id d] else [])
        @ [if truthy (dataset_owner_org d) then ''member-'' @ the (dataset_owner_org d)
           else ''creator-'' @ dataset_creator_user_id d]"
    by (rule dataset_labels_restricted)
next
  fix org creator
  show "\<not> (''member-'' @ org \<in> set (get_dataset_labels cfg d) \<and>
            ''creator-'' @ creator \<in> set (get_dataset_labels cfg d))"
    by (auto simp: get_dataset_labels_def Let_def)
qed

theorem get_dataset_labels_cases_witness:
  "get_dataset_labels site_plain draft_of_org1 = [''member-org-1''] \<and>
   get_dataset_labels site_collab draft_of_org1 = [''collaborator-pkg-1'', ''member-org-1''] \<and>
   get_dataset_labels site_collab
     (draft_of_org1\<lparr>dataset_owner_org := None\<rparr>) = [''collaborator-pkg-1'', ''creator-u1''] \<and>
   get_dataset_labels site_collab
     (draft_of_org1\<lparr>dataset_state := ''active'', dataset_private := False\<rparr>) = [''public'']"
  using get_dataset_labels_cases [of draft_of_org1 site_plain]
    get_dataset_labels_cases [of draft_of_org1 site_collab]
    get_dataset_labels_cases [of "draft_of_org1\<lparr>dataset_owner_org := None\<rparr>" site_collab]
    get_dataset_labels_cases
      [of "draft_of_org1\<lparr>dataset_state := ''active'', dataset_private := False\<rparr>" site_collab]
  by (simp add: site_plain_def site_collab_def draft_of_org1_def)

text \<open>
  Claim C4. \<^verbatim>\<open>get_user_dataset_labels\<close> returns exactly \<open>public\<close> for the anonymous
  actor. For a user it returns, as a set, \<open>public\<close>, the creator label of the user,
  the member label of every organization \<^verbatim>\<open>organization_list_for_user\<close> returns
  for read permission and, only when the collaborator feature is enabled, the
  collaborator label of every dataset the user collaborates on.
\<close>

theorem get_user_dataset_labels_cases:
  "get_user_dataset_labels cfg None = [''public''] \<and>
   set (get_user_dataset_labels cfg (Some u)) =
     {''public'', ''creator-'' @ user_id u}
     \<union> (\<lambda>org. ''member-'' @ org) ` set (organization_list_for_user cfg (user_id u))
     \<union> (if allow_dataset_collaborators cfg
        then (\<lambda>pkg. ''collaborator-'' @ pkg) `
               set (package_collaborator_list_for_user cfg (user_id u))
        else {})"
proof
  show "get_user_dataset_labels cfg None = [''public'']"
    by (simp add: get_user_dataset_labels_def)
next
  show "set (get_user_dataset_labels cfg (Some u)) =
     {''public'', ''creator-'' @ user_id u}
     \<union> (\<lambda>org. ''member-'' @ org) ` set (organization_list_for_user cfg (user_id u))
     \<union> (if allow_dataset_collaborators cfg
        then (\<lambda>pkg. ''collaborator-'' @ pkg) `
               set (package_collaborator_list_for_user cfg (user_id u))
        else {})"
    by (rule user_labels_set)
qed

theorem get_user_dataset_labels_cases_witness:
  "set (get_user_dataset_labels site_collab (Some user_u2)) =
     {''public'', ''creator-u2'', ''member-org-1'', ''collaborator-pkg-9''} \<and>
   set (get_user_dataset_labels site_plain (Some user_u1)) = {''public'', ''creator-u1''}"
  using get_user_dataset_labels_cases [of site_collab user_u2]
    get_user_dataset_labels_cases [of site_plain user_u1]
  by (simp add: site_plain_def site_collab_def user_u1_def user_u2_def insert_commute)

text \<open>
  Claim C2. For every dataset and every actor, the anonymous one included, the
  dataset is visible to the actor by direct inspection of the fields if and only
  if the labels of the dataset and the labels of the actor have a label in common.
\<close>

theorem visible_iff_labels_intersect:
  "visible_by_field_inspection cfg actor d \<longleftrightarrow>
   set (get_dataset_labels cfg d) \<inter> set (get_user_dataset_labels cfg actor) \<noteq> {}"
proof (cases "dataset_state d = ''active'' \<and> \<not> dataset_private d")
  case True
  then show ?thesis
    by (cases actor) (simp_all add: visible_by_field_inspection_def public_active_def
        get_dataset_labels_def get_user_dataset_labels_def)
next
  case False
  show ?thesis
  proof (cases actor)
    case None
    with False show ?thesis
      by (simp add: visible_by_field_inspection_def public_active_def
          dataset_labels_restricted get_user_dataset_labels_def)
  next
    case (Some u)
    with False show ?thesis
      by (auto simp: visible_by_field_inspection_def public_active_def
          dataset_labels_restricted user_labels_set)
  qed
qed

theorem visible_iff_labels_intersect_witness:
  "\<not> visible_by_field_inspection site_plain (Some user_u1) draft_of_org1 \<and>
   set (get_dataset_labels site_plain draft_of_org1)
     \<inter> set (get_user_dataset_labels site_plain (Some user_u1)) = {} \<and>
   visible_by_field_inspection site_collab (Some user_u2) draft_of_org1 \<and>
   set (get_dataset_labels site_collab draft_of_org1)
     \<inter> set (get_user_dataset_labels site_collab (Some user_u2)) \<noteq> {}"
  using visible_iff_labels_intersect [of site_plain "Some user_u1" draft_of_org1]
    visible_iff_labels_intersect [of site_collab "Some user_u2" draft_of_org1]
  by (simp add: visible_by_field_inspection_def public_active_def site_plain_def
      site_collab_def draft_of_org1_def user_u1_def user_u2_def)

section \<open>Properties of the registry\<close>

lemmas example_defs = group_plugin_m_def dataset_plugin_e_def dataset_plugin_a_def dataset_plugin_b_def dataset_plugin_c_def
  dataset_plugin_d_def group_plugin_g_def group_plugin_o_def group_plugin_h_def group_plugin_n_def
  module_globals_def register_package_plugins_def register_group_plugins_def
  register_package_plugin_def register_group_plugin_def set_default_package_plugin_def
  set_default_group_plugin_def is_organization_def group_controller_def
  lookup_package_plugin_def lookup_group_plugin_def lookup_group_controller_def
  registry_in_use_def reset_package_plugins_def reset_group_plugins_def

subsection \<open>The loops over dataset plugins\<close>

lemma package_types_loop_frame:
  "\<exists>m. globals_after (package_types_loop p ts r) = r\<lparr>package_plugins := m\<rparr> \<and>
       package_plugins r \<subseteq>\<^sub>m m"
proof (induction ts arbitrary: r)
  case Nil
  show ?case by (rule exI [of _ "package_plugins r"]) simp
next
  case (Cons t ts)
  show ?case
  proof (cases "package_plugins r t = None")
    case False
    then show ?thesis by (intro exI [of _ "package_plugins r"]) simp
  next
    case True
    let ?r = "r\<lparr>package_plugins := (package_plugins r)(t \<mapsto> DatasetPlugin p)\<rparr>"
    from Cons.IH [of ?r] obtain m where
      m: "globals_after (package_types_loop p ts ?r) = ?r\<lparr>package_plugins := m\<rparr>"
         "package_plugins ?r \<subseteq>\<^sub>m m" by blast
    have "package_plugins r \<subseteq>\<^sub>m package_plugins ?r"
      using True by (auto simp: map_le_def)
    with m(2) have "package_plugins r \<subseteq>\<^sub>m m" by (blast intro: map_le_trans)
    with m(1) True show ?thesis by (intro exI [of _ m]) simp
  qed
qed

lemma package_types_loop_returns:
  "package_types_loop p ts r = Inr r' \<Longrightarrow>
   distinct ts \<and> (\<forall>t \<in> set ts. package_plugins r t = None) \<and>
   (\<forall>t. package_plugins r' t =
          (if t \<in> set ts then Some (DatasetPlugin p) else package_plugins r t))"
proof (induction ts arbitrary: r)
  case Nil
  then show ?case by simp
next
  case (Cons t ts)
  from Cons.prems have free: "package_plugins r t = None"
    by (simp split: if_splits)
  let ?r = "r\<lparr>package_plugins := (package_plugins r)(t \<mapsto> DatasetPlugin p)\<rparr>"
  from Cons.prems free have "package_types_loop p ts ?r = Inr r'" by simp
  from Cons.IH [OF this] have
    d: "distinct ts" and
    n: "\<forall>u \<in> set ts. package_plugins ?r u = None" and
    a: "\<forall>u. package_plugins r' u =
          (if u \<in> set ts then Some (DatasetPlugin p) else package_plugins ?r u)"
    by blast+
  from n have "t \<notin> set ts" by auto
  moreover from n have "\<forall>u \<in> set ts. package_plugins r u = None"
    by (auto split: if_splits)
  ultimately show ?case using d free a by auto
qed

lemma package_types_loop_raises:
  "package_types_loop p ts r = Inl (e, r') \<Longrightarrow> \<exists>t \<in> set ts. e = Existing_IDatasetForm t"
  by (induction ts arbitrary: r) (auto split: if_splits)

lemma register_package_plugin_frame:
  "\<exists>s m. globals_after (register_package_plugin p r) =
           r\<lparr>default_package_plugin := s, package_plugins := m\<rparr> \<and>
         package_plugins r \<subseteq>\<^sub>m m"
proof -
  have keep: "\<exists>s m. r = r\<lparr>default_package_plugin := s, package_plugins := m\<rparr> \<and>
                package_plugins r \<subseteq>\<^sub>m m"
    by (intro exI [of _ "default_package_plugin r"] exI [of _ "package_plugins r"]) simp
  have run: "\<exists>s m. globals_after (package_types_loop p ts (r\<lparr>default_package_plugin := s0\<rparr>)) =
           r\<lparr>default_package_plugin := s, package_plugins := m\<rparr> \<and>
         package_plugins r \<subseteq>\<^sub>m m" for ts s0
  proof -
    from package_types_loop_frame [of p ts "r\<lparr>default_package_plugin := s0\<rparr>"]
    obtain m where "globals_after (package_types_loop p ts (r\<lparr>default_package_plugin := s0\<rparr>))
        = r\<lparr>default_package_plugin := s0, package_plugins := m\<rparr>" "package_plugins r \<subseteq>\<^sub>m m"
      by auto
    then show ?thesis by blast
  qed
  have run': "\<exists>s m. globals_after (package_types_loop p ts r) =
           r\<lparr>default_package_plugin := s, package_plugins := m\<rparr> \<and>
         package_plugins r \<subseteq>\<^sub>m m" for ts
    using run [of ts "default_package_plugin r"] by simp
  show ?thesis
    unfolding register_package_plugin_def
    using keep run run' by (simp split: option.split)
qed

lemma register_package_plugin_returns:
  assumes "register_package_plugin p r = Inr r'"
  shows "default_package_plugin r' =
           (if dataset_is_fallback p then Some (DatasetPlugin p) else default_package_plugin r)"
    and "dataset_is_fallback p \<Longrightarrow> default_package_plugin r = Some c \<Longrightarrow>
           isinstance_DefaultDatasetForm c"
    and "distinct (package_types p)"
    and "t \<in> set (package_types p) \<Longrightarrow> package_plugins r t = None"
    and "package_plugins r' t =
          (if t \<in> set (package_types p) then Some (DatasetPlugin p) else package_plugins r t)"
proof -
  obtain r0 where r0: "package_types_loop p (package_types p) r0 = Inr r'"
    and tab: "package_plugins r0 = package_plugins r"
    and slot: "default_package_plugin r0 =
           (if dataset_is_fallback p then Some (DatasetPlugin p) else default_package_plugin r)"
    and ok: "dataset_is_fallback p \<longrightarrow> (\<forall>c. default_package_plugin r = Some c \<longrightarrow>
           isinstance_DefaultDatasetForm c)"
    using assms unfolding register_package_plugin_def
    by (auto split: if_splits option.splits)
  from package_types_loop_frame [of p "package_types p" r0] r0
  obtain m where "r' = r0\<lparr>package_plugins := m\<rparr>" by auto
  with slot show "default_package_plugin r' =
           (if dataset_is_fallback p then Some (DatasetPlugin p) else default_package_plugin r)"
    by simp
  from ok show "dataset_is_fallback p \<Longrightarrow> default_package_plugin r = Some c \<Longrightarrow>
           isinstance_DefaultDatasetForm c" by blast
  from package_types_loop_returns [OF r0] tab
  show "distinct (package_types p)"
    and "t \<in> set (package_types p) \<Longrightarrow> package_plugins r t = None"
    and "package_plugins r' t =
          (if t \<in> set (package_types p) then Some (DatasetPlugin p) else package_plugins r t)"
    by auto
qed

lemma register_package_plugin_raises:
  "register_package_plugin p r = Inl (e, r') \<Longrightarrow>
   (e = More_than_one_fallback_IDatasetForm \<and> dataset_is_fallback p) \<or>
   (\<exists>t \<in> set (package_types p). e = Existing_IDatasetForm t)"
  unfolding register_package_plugin_def
  by (auto split: if_splits option.splits dest: package_types_loop_raises)

lemma package_plugins_loop_append:
  "package_plugins_loop (xs @ ys) r =
     (case package_plugins_loop xs r of
        Inl e \<Rightarrow> Inl e
      | Inr r' \<Rightarrow> package_plugins_loop ys r')"
  by (induction xs arbitrary: r) (auto split: sum.splits)

lemma package_plugins_loop_frame:
  "\<exists>s m. globals_after (package_plugins_loop ps r) =
           r\<lparr>default_package_plugin := s, package_plugins := m\<rparr> \<and>
         package_plugins r \<subseteq>\<^sub>m m"
proof (induction ps arbitrary: r)
  case Nil
  show ?case
    by (intro exI [of _ "default_package_plugin r"] exI [of _ "package_plugins r"]) simp
next
  case (Cons p ps)
  from register_package_plugin_frame [of p r] obtain s m where
    one: "globals_after (register_package_plugin p r) =
            r\<lparr>default_package_plugin := s, package_plugins := m\<rparr>"
         "package_plugins r \<subseteq>\<^sub>m m" by blast
  show ?case
  proof (cases "register_package_plugin p r")
    case (Inl raised)
    with one show ?thesis by (cases raised) auto
  next
    case (Inr r1)
    from Cons.IH [of r1] obtain s' m' where
      two: "globals_after (package_plugins_loop ps r1) =
              r1\<lparr>default_package_plugin := s', package_plugins := m'\<rparr>"
           "package_plugins r1 \<subseteq>\<^sub>m m'" by blast
    from one Inr have r1: "r1 = r\<lparr>default_package_plugin := s, package_plugins := m\<rparr>" by simp
    with two(2) one(2) have "package_plugins r \<subseteq>\<^sub>m m'"
      by (auto intro: map_le_trans)
    with two(1) r1 Inr show ?thesis by (intro exI [of _ s'] exI [of _ m']) simp
  qed
qed

lemma package_plugins_loop_taken_type:
  "package_plugins r t \<noteq> None \<Longrightarrow> q \<in> set ps \<Longrightarrow> t \<in> set (package_types q) \<Longrightarrow>
   \<exists>e r'. package_plugins_loop ps r = Inl (e, r')"
proof (induction ps arbitrary: r)
  case Nil
  then show ?case by simp
next
  case (Cons p ps)
  show ?case
  proof (cases "register_package_plugin p r")
    case (Inl raised)
    then show ?thesis by (cases raised) simp
  next
    case (Inr r1)
    from register_package_plugin_returns(4,5) [OF Inr, of t] Cons.prems(1)
    have "t \<notin> set (package_types p)" and "package_plugins r1 t \<noteq> None" by auto
    with Cons.prems have "q \<in> set ps" by auto
    from Cons.IH [OF \<open>package_plugins r1 t \<noteq> None\<close> this Cons.prems(3)] Inr
    show ?thesis by simp
  qed
qed

lemma package_plugins_loop_raises:
  "package_plugins_loop ps r = Inl (e, r') \<Longrightarrow>
   (e = More_than_one_fallback_IDatasetForm \<and> (\<exists>p \<in> set ps. dataset_is_fallback p)) \<or>
   (\<exists>p \<in> set ps. \<exists>t \<in> set (package_types p). e = Existing_IDatasetForm t)"
proof (induction ps arbitrary: r)
  case Nil
  then show ?case by simp
next
  case (Cons p ps)
  show ?case
  proof (cases "register_package_plugin p r")
    case (Inl raised)
    with Cons.prems have "register_package_plugin p r = Inl (e, r')" by simp
    from register_package_plugin_raises [OF this] show ?thesis by auto
  next
    case (Inr r1)
    with Cons.prems have "package_plugins_loop ps r1 = Inl (e, r')" by simp
    from Cons.IH [OF this] show ?thesis by auto
  qed
qed

subsection \<open>The loops over group plugins\<close>

lemma group_types_loop_frame:
  "\<exists>m c. globals_after (group_types_loop p ts r) =
           r\<lparr>group_plugins := m, group_controllers := c\<rparr> \<and>
         group_plugins r \<subseteq>\<^sub>m m"
proof (induction ts arbitrary: r)
  case Nil
  show ?case
    by (intro exI [of _ "group_plugins r"] exI [of _ "group_controllers r"]) simp
next
  case (Cons t ts)
  show ?case
  proof (cases "group_plugins r t = None")
    case False
    then show ?thesis
      by (intro exI [of _ "group_plugins r"] exI [of _ "group_controllers r"]) simp
  next
    case True
    let ?r = "r\<lparr>group_plugins := (group_plugins r)(t \<mapsto> GroupPlugin p),
                 group_controllers := (group_controllers r)(t \<mapsto> group_controller p)\<rparr>"
    from Cons.IH [of ?r] obtain m c where
      m: "globals_after (group_types_loop p ts ?r) =
            ?r\<lparr>group_plugins := m, group_controllers := c\<rparr>"
         "group_plugins ?r \<subseteq>\<^sub>m m" by blast
    have "group_plugins r \<subseteq>\<^sub>m group_plugins ?r"
      using True by (auto simp: map_le_def)
    with m(2) have "group_plugins r \<subseteq>\<^sub>m m" by (blast intro: map_le_trans)
    with m(1) True show ?thesis by (intro exI [of _ m] exI [of _ c]) simp
  qed
qed

lemma group_types_loop_returns:
  "group_types_loop p ts r = Inr r' \<Longrightarrow>
   distinct ts \<and> (\<forall>t \<in> set ts. group_plugins r t = None) \<and>
   (\<forall>t. group_plugins r' t =
          (if t \<in> set ts then Some (GroupPlugin p) else group_plugins r t)) \<and>
   (\<forall>t. group_controllers r' t =
          (if t \<in> set ts then Some (group_controller p) else group_controllers r t))"
proof (induction ts arbitrary: r)
  case Nil
  then show ?case by simp
next
  case (Cons t ts)
  from Cons.prems have free: "group_plugins r t = None"
    by (simp split: if_splits)
  let ?r = "r\<lparr>group_plugins := (group_plugins r)(t \<mapsto> GroupPlugin p),
               group_controllers := (group_controllers r)(t \<mapsto> group_controller p)\<rparr>"
  from Cons.prems free have "group_types_loop p ts ?r = Inr r'" by simp
  from Cons.IH [OF this] have
    d: "distinct ts" and
    n: "\<forall>u \<in> set ts. group_plugins ?r u = None" and
    a: "\<forall>u. group_plugins r' u =
          (if u \<in> set ts then Some (GroupPlugin p) else group_plugins ?r u)" and
    b: "\<forall>u. group_controllers r' u =
          (if u \<in> set ts then Some (group_controller p) else group_controllers ?r u)"
    by blast+
  from n have "t \<notin> set ts" by auto
  moreover from n have "\<forall>u \<in> set ts. group_plugins r u = None"
    by (auto split: if_splits)
  ultimately show ?case using d free a b by auto
qed

lemma group_types_loop_raises:
  "group_types_loop p ts r = Inl (e, r') \<Longrightarrow> \<exists>t \<in> set ts. e = Existing_IGroupForm t"
  by (induction ts arbitrary: r) (auto split: if_splits)

lemma register_group_plugin_frame:
  "\<exists>g org m c. globals_after (register_group_plugin p r) =
           r\<lparr>default_group_plugin := g, default_organization_plugin := org,
             group_plugins := m, group_controllers := c\<rparr> \<and>
         group_plugins r \<subseteq>\<^sub>m m"
proof -
  have keep: "\<exists>g org m c. r = r\<lparr>default_group_plugin := g, default_organization_plugin := org,
             group_plugins := m, group_controllers := c\<rparr> \<and> group_plugins r \<subseteq>\<^sub>m m"
    by (intro exI [of _ "default_group_plugin r"] exI [of _ "default_organization_plugin r"]
        exI [of _ "group_plugins r"] exI [of _ "group_controllers r"]) simp
  have run: "\<exists>g org m c.
         globals_after (group_types_loop p ts
           (r\<lparr>default_group_plugin := g0, default_organization_plugin := o0\<rparr>)) =
           r\<lparr>default_group_plugin := g, default_organization_plugin := org,
             group_plugins := m, group_controllers := c\<rparr> \<and>
         group_plugins r \<subseteq>\<^sub>m m" for ts g0 o0
  proof -
    from group_types_loop_frame
      [of p ts "r\<lparr>default_group_plugin := g0, default_organization_plugin := o0\<rparr>"]
    obtain m c where
      "globals_after (group_types_loop p ts
           (r\<lparr>default_group_plugin := g0, default_organization_plugin := o0\<rparr>))
        = r\<lparr>default_group_plugin := g0, default_organization_plugin := o0,
            group_plugins := m, group_controllers := c\<rparr>" "group_plugins r \<subseteq>\<^sub>m m"
      by auto
    then show ?thesis by blast
  qed
  have run_org: "\<exists>g org m c.
         globals_after (group_types_loop p ts (r\<lparr>default_organization_plugin := o0\<rparr>)) =
           r\<lparr>default_group_plugin := g, default_organization_plugin := org,
             group_plugins := m, group_controllers := c\<rparr> \<and>
         group_plugins r \<subseteq>\<^sub>m m" for ts o0
    using run [where ts = ts and ?g0.0 = "default_group_plugin r" and ?o0.0 = o0] by simp
  have run_grp: "\<exists>g org m c.
         globals_after (group_types_loop p ts (r\<lparr>default_group_plugin := g0\<rparr>)) =
           r\<lparr>default_group_plugin := g, default_organization_plugin := org,
             group_plugins := m, group_controllers := c\<rparr> \<and>
         group_plugins r \<subseteq>\<^sub>m m" for ts g0
    using run [where ts = ts and ?g0.0 = g0 and ?o0.0 = "default_organization_plugin r"] by simp
  have run_none: "\<exists>g org m c.
         globals_after (group_types_loop p ts r) =
           r\<lparr>default_group_plugin := g, default_organization_plugin := org,
             group_plugins := m, group_controllers := c\<rparr> \<and>
         group_plugins r \<subseteq>\<^sub>m m" for ts
    using run [where ts = ts and ?g0.0 = "default_group_plugin r" and ?o0.0 = "default_organization_plugin r"] by simp
  show ?thesis
    unfolding register_group_plugin_def
    using keep run_org run_grp run_none by (simp split: option.split)
qed

lemma register_group_plugin_returns:
  assumes "register_group_plugin p r = Inr r'"
  shows "default_group_plugin r' =
           (if group_is_fallback p \<and> \<not> is_organization p then Some (GroupPlugin p)
            else default_group_plugin r)"
    and "default_organization_plugin r' =
           (if group_is_fallback p \<and> is_organization p then Some (GroupPlugin p)
            else default_organization_plugin r)"
    and "group_is_fallback p \<Longrightarrow> \<not> is_organization p \<Longrightarrow> default_group_plugin r = Some c \<Longrightarrow>
           isinstance_DefaultGroupForm c"
    and "group_is_fallback p \<Longrightarrow> is_organization p \<Longrightarrow> default_organization_plugin r = Some c \<Longrightarrow>
           isinstance_DefaultOrganizationForm c"
    and "distinct (group_types p)"
    and "t \<in> set (group_types p) \<Longrightarrow> group_plugins r t = None"
    and "group_plugins r' t =
          (if t \<in> set (group_types p) then Some (GroupPlugin p) else group_plugins r t)"
    and "group_controllers r' t =
          (if t \<in> set (group_types p) then Some (group_controller p) else group_controllers r t)"
proof -
  obtain r0 where r0: "group_types_loop p (group_types p) r0 = Inr r'"
    and tab: "group_plugins r0 = group_plugins r" "group_controllers r0 = group_controllers r"
    and slot: "default_group_plugin r0 =
           (if group_is_fallback p \<and> \<not> is_organization p then Some (GroupPlugin p)
            else default_group_plugin r)"
       "default_organization_plugin r0 =
           (if group_is_fallback p \<and> is_organization p then Some (GroupPlugin p)
            else default_organization_plugin r)"
    and ok: "group_is_fallback p \<and> \<not> is_organization p \<longrightarrow>
              (\<forall>c. default_group_plugin r = Some c \<longrightarrow> isinstance_DefaultGroupForm c)"
       "group_is_fallback p \<and> is_organization p \<longrightarrow>
              (\<forall>c. default_organization_plugin r = Some c \<longrightarrow> isinstance_DefaultOrganizationForm c)"
    using assms unfolding register_group_plugin_def
    by (auto split: if_splits option.splits)
  from group_types_loop_frame [of p "group_types p" r0] r0
  obtain m k where "r' = r0\<lparr>group_plugins := m, group_controllers := k\<rparr>" by auto
  with slot show "default_group_plugin r' =
           (if group_is_fallback p \<and> \<not> is_organization p then Some (GroupPlugin p)
            else default_group_plugin r)"
    and "default_organization_plugin r' =
           (if group_is_fallback p \<and> is_organization p then Some (GroupPlugin p)
            else default_organization_plugin r)"
    by simp_all
  from ok show "group_is_fallback p \<Longrightarrow> \<not> is_organization p \<Longrightarrow> default_group_plugin r = Some c \<Longrightarrow>
           isinstance_DefaultGroupForm c"
    and "group_is_fallback p \<Longrightarrow> is_organization p \<Longrightarrow> default_organization_plugin r = Some c \<Longrightarrow>
           isinstance_DefaultOrganizationForm c" by blast+
  from group_types_loop_returns [OF r0] tab
  show "distinct (group_types p)"
    and "t \<in> set (group_types p) \<Longrightarrow> group_plugins r t = None"
    and "group_plugins r' t =
          (if t \<in> set (group_types p) then Some (GroupPlugin p) else group_plugins r t)"
    and "group_controllers r' t =
          (if t \<in> set (group_types p) then Some (group_controller p) else group_controllers r t)"
    by auto
qed

lemma register_group_plugin_raises:
  "register_group_plugin p r = Inl (e, r') \<Longrightarrow>
   (e = More_than_one_fallback_IGroupForm_organizations \<and> group_is_fallback p \<and> is_organization p) \<or>
   (e = More_than_one_fallback_IGroupForm_groups \<and> group_is_fallback p \<and> \<not> is_organization p) \<or>
   (\<exists>t \<in> set (group_types p). e = Existing_IGroupForm t)"
  unfolding register_group_plugin_def
  by (auto split: if_splits option.splits dest: group_types_loop_raises)

lemma group_plugins_loop_append:
  "group_plugins_loop (xs @ ys) r =
     (case group_plugins_loop xs r of
        Inl e \<Rightarrow> Inl e
      | Inr r' \<Rightarrow> group_plugins_loop ys r')"
  by (induction xs arbitrary: r) (auto split: sum.splits)

lemma group_plugins_loop_frame:
  "\<exists>g org m c. globals_after (group_plugins_loop ps r) =
           r\<lparr>default_group_plugin := g, default_organization_plugin := org,
             group_plugins := m, group_controllers := c\<rparr> \<and>
         group_plugins r \<subseteq>\<^sub>m m"
proof (induction ps arbitrary: r)
  case Nil
  show ?case
    by (intro exI [of _ "default_group_plugin r"] exI [of _ "default_organization_plugin r"]
        exI [of _ "group_plugins r"] exI [of _ "group_controllers r"]) simp
next
  case (Cons p ps)
  from register_group_plugin_frame [of p r] obtain g org m c where
    one: "globals_after (register_group_plugin p r) =
            r\<lparr>default_group_plugin := g, default_organization_plugin := org,
              group_plugins := m, group_controllers := c\<rparr>"
         "group_plugins r \<subseteq>\<^sub>m m" by blast
  show ?case
  proof (cases "register_group_plugin p r")
    case (Inl raised)
    with one show ?thesis by (cases raised) auto
  next
    case (Inr r1)
    from Cons.IH [of r1] obtain g' org' m' c' where
      two: "globals_after (group_plugins_loop ps r1) =
              r1\<lparr>default_group_plugin := g', default_organization_plugin := org',
                 group_plugins := m', group_controllers := c'\<rparr>"
           "group_plugins r1 \<subseteq>\<^sub>m m'" by blast
    from one Inr have r1: "r1 = r\<lparr>default_group_plugin := g, default_organization_plugin := org,
              group_plugins := m, group_controllers := c\<rparr>" by simp
    with two(2) one(2) have "group_plugins r \<subseteq>\<^sub>m m'"
      by (auto intro: map_le_trans)
    with two(1) r1 Inr show ?thesis
      by (intro exI [of _ g'] exI [of _ org'] exI [of _ m'] exI [of _ c']) simp
  qed
qed

lemma group_plugins_loop_taken_type:
  "group_plugins r t \<noteq> None \<Longrightarrow> q \<in> set ps \<Longrightarrow> t \<in> set (group_types q) \<Longrightarrow>
   \<exists>e r'. group_plugins_loop ps r = Inl (e, r')"
proof (induction ps arbitrary: r)
  case Nil
  then show ?case by simp
next
  case (Cons p ps)
  show ?case
  proof (cases "register_group_plugin p r")
    case (Inl raised)
    then show ?thesis by (cases raised) simp
  next
    case (Inr r1)
    from register_group_plugin_returns(6,7) [OF Inr, of t] Cons.prems(1)
    have "t \<notin> set (group_types p)" and "group_plugins r1 t \<noteq> None" by auto
    with Cons.prems have "q \<in> set ps" by auto
    from Cons.IH [OF \<open>group_plugins r1 t \<noteq> None\<close> this Cons.prems(3)] Inr
    show ?thesis by simp
  qed
qed

lemma group_plugins_loop_raises:
  "group_plugins_loop ps r = Inl (e, r') \<Longrightarrow>
   (e = More_than_one_fallback_IGroupForm_organizations \<and>
      (\<exists>p \<in> set ps. group_is_fallback p \<and> is_organization p)) \<or>
   (e = More_than_one_fallback_IGroupForm_groups \<and>
      (\<exists>p \<in> set ps. group_is_fallback p \<and> \<not> is_organization p)) \<or>
   (\<exists>p \<in> set ps. \<exists>t \<in> set (group_types p). e = Existing_IGroupForm t)"
proof (induction ps arbitrary: r)
  case Nil
  then show ?case by simp
next
  case (Cons p ps)
  show ?case
  proof (cases "register_group_plugin p r")
    case (Inl raised)
    with Cons.prems have "register_group_plugin p r = Inl (e, r')" by simp
    from register_group_plugin_raises [OF this] show ?thesis by auto
  next
    case (Inr r1)
    with Cons.prems have "group_plugins_loop ps r1 = Inl (e, r')" by simp
    from Cons.IH [OF this] show ?thesis by auto
  qed
qed

subsection \<open>Registration from states that agree\<close>

lemma same_outcome_Inl_Inr [simp]:
  "same_outcome (Inl a) (Inr s) = False" "same_outcome (Inr r) (Inl b) = False"
  "same_outcome (Inr r) (Inr s) = same_registry r s"
  by (cases a; cases b; simp add: same_outcome_def)+










lemma set_default_group_plugin_tables [simp]:
  "package_plugins (set_default_group_plugin r) = package_plugins r"
  "default_package_plugin (set_default_group_plugin r) = default_package_plugin r"
  "group_plugins (set_default_group_plugin r) = group_plugins r"
  "group_blueprints (set_default_group_plugin r) = group_blueprints r"
  by (simp_all add: set_default_group_plugin_def Let_def)

lemma set_default_group_plugin_group_slot [simp]:
  "default_group_plugin (set_default_group_plugin r) =
     (case default_group_plugin r of None \<Rightarrow> Some DefaultGroupForm | Some f \<Rightarrow> Some f)"
  by (simp add: set_default_group_plugin_def Let_def split: option.split)

lemma set_default_group_plugin_organization_slot [simp]:
  "default_organization_plugin (set_default_group_plugin r) =
     (case default_organization_plugin r of
        None \<Rightarrow> Some DefaultOrganizationForm | Some f \<Rightarrow> Some f)"
  by (simp add: set_default_group_plugin_def Let_def split: option.split)

lemma set_default_group_plugin_controllers:
  "group_controllers (set_default_group_plugin r) t =
     (if group_controllers r t = None \<and> (t = ''group'' \<or> t = ''organization'')
      then Some t else group_controllers r t)"
  by (simp add: set_default_group_plugin_def Let_def)

lemma set_default_group_plugin_constructor_calls:
  "constructor_calls (set_default_group_plugin r) =
     (if default_organization_plugin r = None then [Class_DefaultOrganizationForm] else [])
     @ (if default_group_plugin r = None then [Class_DefaultGroupForm] else [])
     @ constructor_calls r"
  by (simp add: set_default_group_plugin_def Let_def)







subsection \<open>Lookups\<close>

lemma call_lookup_unchanged: "snd (call_lookup c r) = r"
  by (cases c) simp_all

lemma call_lookups_unchanged:
  "snd (call_lookups cs r) = r \<and> fst (call_lookups cs r) = map (\<lambda>c. fst (call_lookup c r)) cs"
proof (induction cs)
  case Nil
  show ?case by simp
next
  case (Cons c cs)
  obtain v where v: "call_lookup c r = (v, r)"
    using call_lookup_unchanged [of c r] by (cases "call_lookup c r") simp
  with Cons show ?case by (simp add: split_beta)
qed

text \<open>
  Claim C10. Every lookup leaves the globals as they were, so does every sequence of
  lookups, and each lookup of a sequence returns what it returns when called alone
  on the same globals: the order of lookups does not matter, and a repeated lookup
  returns the same result every time.
\<close>

theorem lookups_leave_globals:
  "snd (call_lookup c r) = r \<and>
   snd (call_lookups cs r) = r \<and>
   fst (call_lookups cs r) = map (\<lambda>c. fst (call_lookup c r)) cs \<and>
   snd (call_lookups (cs @ ds) r) = snd (call_lookups (ds @ cs) r) \<and>
   fst (call_lookups (cs @ ds) r) = fst (call_lookups cs r) @ fst (call_lookups ds r) \<and>
   fst (call_lookups (ds @ cs) r) = fst (call_lookups ds r) @ fst (call_lookups cs r) \<and>
   fst (call_lookups (replicate n c) r) = replicate n (fst (call_lookup c r))"
proof -
  have "fst (call_lookups (replicate n c) r) = replicate n (fst (call_lookup c r))"
    using call_lookups_unchanged [of "replicate n c" r] by (simp add: map_replicate_const)
  then show ?thesis
    using call_lookup_unchanged [of c r] call_lookups_unchanged [of cs r]
      call_lookups_unchanged [of ds r] call_lookups_unchanged [of "cs @ ds" r]
      call_lookups_unchanged [of "ds @ cs" r]
    by simp
qed

theorem lookups_leave_globals_witness:
  "call_lookups [Lookup_group_controller (Some ''grp''), Lookup_package_plugin None,
                 Lookup_group_plugin (Some ''organization'')] registry_in_use =
     ([Returned_controller (Some ''group''),
       Returned_dataset_form (Some (DatasetPlugin dataset_plugin_a)),
       Returned_group_form (Some DefaultOrganizationForm)], registry_in_use)"
proof -
  let ?cs = "[Lookup_group_controller (Some ''grp''), Lookup_package_plugin None,
              Lookup_group_plugin (Some ''organization'')]"
  from lookups_leave_globals [of _ registry_in_use ?cs]
  have "snd (call_lookups ?cs registry_in_use) = registry_in_use"
    and "fst (call_lookups ?cs registry_in_use) =
           map (\<lambda>c. fst (call_lookup c registry_in_use)) ?cs"
    by blast+
  moreover have "map (\<lambda>c. fst (call_lookup c registry_in_use)) ?cs =
     [Returned_controller (Some ''group''),
      Returned_dataset_form (Some (DatasetPlugin dataset_plugin_a)),
      Returned_group_form (Some DefaultOrganizationForm)]"
    by (simp add: example_defs)
  ultimately show ?thesis
    by (cases "call_lookups ?cs registry_in_use") simp
qed

lemma package_plugins_loop_returns:
  "package_plugins_loop ps r = Inr r' \<Longrightarrow>
   (\<forall>p \<in> set ps. \<forall>t \<in> set (package_types p). package_plugins r' t = Some (DatasetPlugin p)) \<and>
   (\<forall>t. (\<forall>p \<in> set ps. t \<notin> set (package_types p)) \<longrightarrow> package_plugins r' t = package_plugins r t)"
proof (induction ps arbitrary: r)
  case Nil
  then show ?case by simp
next
  case (Cons p ps)
  from Cons.prems obtain r1 where one: "register_package_plugin p r = Inr r1"
    and rest: "package_plugins_loop ps r1 = Inr r'"
    by (auto split: sum.splits)
  note IH = Cons.IH [OF rest]
  have here: "package_plugins r' t = Some (DatasetPlugin p)" if t: "t \<in> set (package_types p)" for t
  proof -
    from register_package_plugin_returns(5) [OF one, of t] t
    have taken: "package_plugins r1 t = Some (DatasetPlugin p)" by simp
    have "\<forall>q \<in> set ps. t \<notin> set (package_types q)"
    proof (intro ballI notI)
      fix q assume "q \<in> set ps" "t \<in> set (package_types q)"
      with package_plugins_loop_taken_type [of r1 t q ps] taken rest show False by auto
    qed
    with IH taken show ?thesis by simp
  qed
  have other: "package_plugins r' t = package_plugins r t"
    if "\<forall>q \<in> set (p # ps). t \<notin> set (package_types q)" for t
    using that IH register_package_plugin_returns(5) [OF one, of t] by simp
  from here other IH show ?case by simp
qed

lemma package_plugins_loop_no_fallback:
  "package_plugins_loop ps r = Inr r' \<Longrightarrow> \<forall>p \<in> set ps. \<not> dataset_is_fallback p \<Longrightarrow>
   default_package_plugin r' = default_package_plugin r"
proof (induction ps arbitrary: r)
  case Nil
  then show ?case by simp
next
  case (Cons p ps)
  from Cons.prems(1) obtain r1 where one: "register_package_plugin p r = Inr r1"
    and rest: "package_plugins_loop ps r1 = Inr r'"
    by (auto split: sum.splits)
  from register_package_plugin_returns(1) [OF one] Cons.prems(2)
  have "default_package_plugin r1 = default_package_plugin r" by simp
  with Cons.IH [OF rest] Cons.prems(2) show ?case by simp
qed

lemma group_plugins_loop_returns:
  "group_plugins_loop ps r = Inr r' \<Longrightarrow>
   (\<forall>p \<in> set ps. \<forall>t \<in> set (group_types p).
      group_plugins r' t = Some (GroupPlugin p) \<and>
      group_controllers r' t = Some (group_controller p)) \<and>
   (\<forall>t. (\<forall>p \<in> set ps. t \<notin> set (group_types p)) \<longrightarrow>
      group_plugins r' t = group_plugins r t \<and> group_controllers r' t = group_controllers r t)"
proof (induction ps arbitrary: r)
  case Nil
  then show ?case by simp
next
  case (Cons p ps)
  from Cons.prems obtain r1 where one: "register_group_plugin p r = Inr r1"
    and rest: "group_plugins_loop ps r1 = Inr r'"
    by (auto split: sum.splits)
  note IH = Cons.IH [OF rest]
  have here: "group_plugins r' t = Some (GroupPlugin p) \<and>
              group_controllers r' t = Some (group_controller p)"
    if t: "t \<in> set (group_types p)" for t
  proof -
    from register_group_plugin_returns(7,8) [OF one, of t] t
    have taken: "group_plugins r1 t = Some (GroupPlugin p)"
      "group_controllers r1 t = Some (group_controller p)" by simp_all
    have "\<forall>q \<in> set ps. t \<notin> set (group_types q)"
    proof (intro ballI notI)
      fix q assume "q \<in> set ps" "t \<in> set (group_types q)"
      with group_plugins_loop_taken_type [of r1 t q ps] taken rest show False by auto
    qed
    with IH taken show ?thesis by simp
  qed
  have other: "group_plugins r' t = group_plugins r t \<and>
               group_controllers r' t = group_controllers r t"
    if "\<forall>q \<in> set (p # ps). t \<notin> set (group_types q)" for t
    using that IH register_group_plugin_returns(7,8) [OF one, of t] by simp
  from here other IH show ?case by simp
qed

lemma group_plugins_loop_no_group_fallback:
  "group_plugins_loop ps r = Inr r' \<Longrightarrow>
   \<forall>p \<in> set ps. group_is_fallback p \<longrightarrow> is_organization p \<Longrightarrow>
   default_group_plugin r' = default_group_plugin r"
proof (induction ps arbitrary: r)
  case Nil
  then show ?case by simp
next
  case (Cons p ps)
  from Cons.prems(1) obtain r1 where one: "register_group_plugin p r = Inr r1"
    and rest: "group_plugins_loop ps r1 = Inr r'"
    by (auto split: sum.splits)
  from register_group_plugin_returns(1) [OF one] Cons.prems(2)
  have "default_group_plugin r1 = default_group_plugin r" by auto
  with Cons.IH [OF rest] Cons.prems(2) show ?case by simp
qed

lemma group_plugins_loop_no_organization_fallback:
  "group_plugins_loop ps r = Inr r' \<Longrightarrow>
   \<forall>p \<in> set ps. group_is_fallback p \<longrightarrow> \<not> is_organization p \<Longrightarrow>
   default_organization_plugin r' = default_organization_plugin r"
proof (induction ps arbitrary: r)
  case Nil
  then show ?case by simp
next
  case (Cons p ps)
  from Cons.prems(1) obtain r1 where one: "register_group_plugin p r = Inr r1"
    and rest: "group_plugins_loop ps r1 = Inr r'"
    by (auto split: sum.splits)
  from register_group_plugin_returns(2) [OF one] Cons.prems(2)
  have "default_organization_plugin r1 = default_organization_plugin r" by auto
  with Cons.IH [OF rest] Cons.prems(2) show ?case by simp
qed

lemma register_group_plugins_returns:
  assumes "register_group_plugins ps r0 = Inr r"
  obtains r1 where "group_plugins_loop ps r0 = Inr r1" "r = set_default_group_plugin r1"
  using assms unfolding register_group_plugins_def by (auto split: sum.splits)

lemma register_package_plugins_returns:
  assumes "register_package_plugins ps r0 = Inr r"
  obtains r1 where "package_plugins_loop ps r0 = Inr r1" "r = set_default_package_plugin r1"
  using assms unfolding register_package_plugins_def by (auto split: sum.splits)

text \<open>
  Claim C5. After a registration of group providers that returned, both fallback
  slots are filled, and \<^verbatim>\<open>lookup_group_plugin\<close> returns the group fallback for an
  absent type, the organization fallback for \<open>organization\<close> when the table has no
  entry for it (whatever the group fallback is), the registered provider for a type
  in the table, and the group fallback for any other type that is not
  \<open>organization\<close>.
\<close>

theorem lookup_group_plugin_after_registration:
  assumes "register_group_plugins ps r0 = Inr r"
  shows "default_group_plugin r \<noteq> None \<and> default_organization_plugin r \<noteq> None \<and>
     lookup_group_plugin r None = default_group_plugin r \<and>
     (group_plugins r ''organization'' = None \<longrightarrow>
        lookup_group_plugin r (Some ''organization'') = default_organization_plugin r) \<and>
     (\<forall>t f. group_plugins r t = Some f \<longrightarrow> lookup_group_plugin r (Some t) = Some f) \<and>
     (\<forall>p \<in> set ps. \<forall>t \<in> set (group_types p).
        lookup_group_plugin r (Some t) = Some (GroupPlugin p)) \<and>
     (\<forall>t. group_plugins r t = None \<and> t \<noteq> ''organization'' \<longrightarrow>
        lookup_group_plugin r (Some t) = default_group_plugin r)"
proof -
  from assms obtain r1 where loop: "group_plugins_loop ps r0 = Inr r1"
    and r: "r = set_default_group_plugin r1"
    by (rule register_group_plugins_returns)
  have slots: "default_group_plugin r \<noteq> None" "default_organization_plugin r \<noteq> None"
    unfolding r by (simp_all split: option.split)
  have registered: "lookup_group_plugin r (Some t) = Some (GroupPlugin p)"
    if "p \<in> set ps" "t \<in> set (group_types p)" for p t
    using group_plugins_loop_returns [OF loop] that
    unfolding r by (simp add: lookup_group_plugin_def)
  from slots registered show ?thesis
    by (simp add: lookup_group_plugin_def)
qed

theorem lookup_group_plugin_after_registration_witness:
  "lookup_group_plugin (globals_after (register_group_plugins [group_plugin_g] module_globals)) None
     = Some (GroupPlugin group_plugin_g) \<and>
   lookup_group_plugin (globals_after (register_group_plugins [group_plugin_g] module_globals))
     (Some ''organization'') = Some DefaultOrganizationForm \<and>
   lookup_group_plugin (globals_after (register_group_plugins [group_plugin_g] module_globals))
     (Some ''grp'') = Some (GroupPlugin group_plugin_g) \<and>
   lookup_group_plugin (globals_after (register_group_plugins [group_plugin_g] module_globals))
     (Some ''unknown'') = Some (GroupPlugin group_plugin_g)"
proof -
  have run: "register_group_plugins [group_plugin_g] module_globals =
    Inr (globals_after (register_group_plugins [group_plugin_g] module_globals))"
    by (simp add: example_defs Let_def)
  from lookup_group_plugin_after_registration [OF run] show ?thesis
    by (simp add: example_defs Let_def)
qed

text \<open>
  Claim C8, as amended. After a registration of group providers that returned,
  \<^verbatim>\<open>lookup_group_controller\<close> returns, for a type-string a provider of the pass
  declared, the controller name of that provider (\<open>group\<close> when the provider has no
  \<^verbatim>\<open>group_controller\<close>). For a type-string no provider declared and that had no
  controller before, it returns nothing, except for \<open>group\<close> and \<open>organization\<close>:
  \<^verbatim>\<open>set_default_group_plugin\<close> binds these two to the controllers of the same name.
\<close>

theorem lookup_group_controller_after_registration:
  assumes "register_group_plugins ps r0 = Inr r"
  shows "(\<forall>p \<in> set ps. \<forall>t \<in> set (group_types p).
            lookup_group_controller r (Some t) = Some (group_controller p)) \<and>
         (\<forall>t. (\<forall>p \<in> set ps. t \<notin> set (group_types p)) \<and> group_controllers r0 t = None \<longrightarrow>
            lookup_group_controller r (Some t) =
              (if t = ''group'' \<or> t = ''organization'' then Some t else None))"
proof -
  from assms obtain r1 where loop: "group_plugins_loop ps r0 = Inr r1"
    and r: "r = set_default_group_plugin r1"
    by (rule register_group_plugins_returns)
  note tables = group_plugins_loop_returns [OF loop]
  have registered: "lookup_group_controller r (Some t) = Some (group_controller p)"
    if "p \<in> set ps" "t \<in> set (group_types p)" for p t
    using tables that unfolding r
    by (simp add: lookup_group_controller_def set_default_group_plugin_controllers)
  have unregistered: "lookup_group_controller r (Some t) =
              (if t = ''group'' \<or> t = ''organization'' then Some t else None)"
    if "\<forall>p \<in> set ps. t \<notin> set (group_types p)" "group_controllers r0 t = None" for t
    using tables that unfolding r
    by (simp add: lookup_group_controller_def set_default_group_plugin_controllers)
  from registered unregistered show ?thesis by blast
qed

theorem lookup_group_controller_after_registration_witness:
  "lookup_group_controller
     (globals_after (register_group_plugins [group_plugin_g, group_plugin_o] module_globals))
     (Some ''agency'') = Some ''organization'' \<and>
   lookup_group_controller
     (globals_after (register_group_plugins [group_plugin_g, group_plugin_o] module_globals))
     (Some ''grp'') = Some ''group'' \<and>
   lookup_group_controller
     (globals_after (register_group_plugins [group_plugin_g, group_plugin_o] module_globals))
     (Some ''unknown'') = None \<and>
   lookup_group_controller
     (globals_after (register_group_plugins [group_plugin_g, group_plugin_o] module_globals))
     (Some ''organization'') = Some ''organization''"
proof -
  have run: "register_group_plugins [group_plugin_g, group_plugin_o] module_globals =
    Inr (globals_after (register_group_plugins [group_plugin_g, group_plugin_o] module_globals))"
    by (simp add: example_defs Let_def)
  from lookup_group_controller_after_registration [OF run] show ?thesis
    by (simp add: example_defs Let_def)
qed

text \<open>
  Claim C8 as stated fails: with no provider registered at all, the controller of
  \<open>group\<close> is \<open>group\<close>, not absent.
\<close>

theorem unregistered_group_has_controller:
  "raised (register_group_plugins [] module_globals) = None \<and>
   lookup_group_controller (globals_after (register_group_plugins [] module_globals))
     (Some ''group'') = Some ''group''"
  by (simp add: example_defs Let_def)

subsection \<open>Default providers\<close>

lemma package_plugins_loop_constructor_calls:
  "constructor_calls (globals_after (package_plugins_loop ps r)) = constructor_calls r"
  using package_plugins_loop_frame [of ps r] by auto

lemma group_plugins_loop_constructor_calls:
  "constructor_calls (globals_after (group_plugins_loop ps r)) = constructor_calls r"
  using group_plugins_loop_frame [of ps r] by auto

text \<open>
  Claim C7, as amended. For an axis whose fallback slot is empty when registration
  starts and in which no plugin claims the fallback, a registration that returns
  has installed the axis's default provider itself, through
  \<^verbatim>\<open>set_default_package_plugin\<close> or \<^verbatim>\<open>set_default_group_plugin\<close> at its end, before
  any lookup. The default class was constructed exactly once on the way; lookups
  construct nothing and leave the slot as it is, so every lookup with an absent
  type returns that one instance (for the organization axis: every lookup of
  \<open>organization\<close> while no plugin registered that type).
\<close>

theorem default_installed_by_registration:
  "(register_package_plugins dps r0 = Inr r \<and> default_package_plugin r0 = None \<and>
      (\<forall>p \<in> set dps. \<not> dataset_is_fallback p) \<longrightarrow>
        default_package_plugin r = Some DefaultDatasetForm \<and>
        constructor_calls r = Class_DefaultDatasetForm # constructor_calls r0 \<and>
        lookup_package_plugin r None = Some DefaultDatasetForm \<and>
        fst (call_lookups (replicate n (Lookup_package_plugin None)) r) =
          replicate n (Returned_dataset_form (Some DefaultDatasetForm))) \<and>
   (register_group_plugins gps s0 = Inr s \<and> default_group_plugin s0 = None \<and>
      (\<forall>p \<in> set gps. group_is_fallback p \<longrightarrow> is_organization p) \<longrightarrow>
        default_group_plugin s = Some DefaultGroupForm \<and>
        count_list (constructor_calls s) Class_DefaultGroupForm =
          count_list (constructor_calls s0) Class_DefaultGroupForm + 1 \<and>
        lookup_group_plugin s None = Some DefaultGroupForm \<and>
        fst (call_lookups (replicate n (Lookup_group_plugin None)) s) =
          replicate n (Returned_group_form (Some DefaultGroupForm))) \<and>
   (register_group_plugins gps s0 = Inr s \<and> default_organization_plugin s0 = None \<and>
      (\<forall>p \<in> set gps. group_is_fallback p \<longrightarrow> \<not> is_organization p) \<longrightarrow>
        default_organization_plugin s = Some DefaultOrganizationForm \<and>
        count_list (constructor_calls s) Class_DefaultOrganizationForm =
          count_list (constructor_calls s0) Class_DefaultOrganizationForm + 1 \<and>
        (group_plugins s ''organization'' = None \<longrightarrow>
           lookup_group_plugin s (Some ''organization'') = Some DefaultOrganizationForm \<and>
           fst (call_lookups (replicate n (Lookup_group_plugin (Some ''organization''))) s) =
             replicate n (Returned_group_form (Some DefaultOrganizationForm)))) \<and>
   snd (call_lookups cs r) = r \<and>
   constructor_calls (snd (call_lookups cs r)) = constructor_calls r"
proof (intro conjI impI)
  assume a: "register_package_plugins dps r0 = Inr r \<and> default_package_plugin r0 = None \<and>
      (\<forall>p \<in> set dps. \<not> dataset_is_fallback p)"
  then obtain r1 where loop: "package_plugins_loop dps r0 = Inr r1"
    and r: "r = set_default_package_plugin r1"
    by (auto elim: register_package_plugins_returns)
  from package_plugins_loop_no_fallback [OF loop] a
  have slot: "default_package_plugin r1 = None" by simp
  from package_plugins_loop_constructor_calls [of dps r0] loop
  have calls: "constructor_calls r1 = constructor_calls r0" by simp
  from slot show inst: "default_package_plugin r = Some DefaultDatasetForm"
    unfolding r by (simp add: set_default_package_plugin_def)
  from slot calls show "constructor_calls r = Class_DefaultDatasetForm # constructor_calls r0"
    unfolding r by (simp add: set_default_package_plugin_def)
  from inst show look: "lookup_package_plugin r None = Some DefaultDatasetForm"
    by (simp add: lookup_package_plugin_def)
  from look show "fst (call_lookups (replicate n (Lookup_package_plugin None)) r) =
          replicate n (Returned_dataset_form (Some DefaultDatasetForm))"
    using call_lookups_unchanged [of "replicate n (Lookup_package_plugin None)" r]
    by (simp add: map_replicate_const)
next
  assume a: "register_group_plugins gps s0 = Inr s \<and> default_group_plugin s0 = None \<and>
      (\<forall>p \<in> set gps. group_is_fallback p \<longrightarrow> is_organization p)"
  then obtain s1 where loop: "group_plugins_loop gps s0 = Inr s1"
    and s: "s = set_default_group_plugin s1"
    by (auto elim: register_group_plugins_returns)
  from group_plugins_loop_no_group_fallback [OF loop] a
  have slot: "default_group_plugin s1 = None" by simp
  from group_plugins_loop_constructor_calls [of gps s0] loop
  have calls: "constructor_calls s1 = constructor_calls s0" by simp
  from slot show inst: "default_group_plugin s = Some DefaultGroupForm"
    unfolding s by simp
  from slot calls show "count_list (constructor_calls s) Class_DefaultGroupForm =
          count_list (constructor_calls s0) Class_DefaultGroupForm + 1"
    unfolding s by (simp add: set_default_group_plugin_constructor_calls)
  from inst show look: "lookup_group_plugin s None = Some DefaultGroupForm"
    by (simp add: lookup_group_plugin_def)
  from look show "fst (call_lookups (replicate n (Lookup_group_plugin None)) s) =
          replicate n (Returned_group_form (Some DefaultGroupForm))"
    using call_lookups_unchanged [of "replicate n (Lookup_group_plugin None)" s]
    by (simp add: map_replicate_const)
next
  assume a: "register_group_plugins gps s0 = Inr s \<and> default_organization_plugin s0 = None \<and>
      (\<forall>p \<in> set gps. group_is_fallback p \<longrightarrow> \<not> is_organization p)"
  then obtain s1 where loop: "group_plugins_loop gps s0 = Inr s1"
    and s: "s = set_default_group_plugin s1"
    by (auto elim: register_group_plugins_returns)
  from group_plugins_loop_no_organization_fallback [OF loop] a
  have slot: "default_organization_plugin s1 = None" by simp
  from group_plugins_loop_constructor_calls [of gps s0] loop
  have calls: "constructor_calls s1 = constructor_calls s0" by simp
  from slot show inst: "default_organization_plugin s = Some DefaultOrganizationForm"
    unfolding s by simp
  from slot calls show "count_list (constructor_calls s) Class_DefaultOrganizationForm =
          count_list (constructor_calls s0) Class_DefaultOrganizationForm + 1"
    unfolding s by (simp add: set_default_group_plugin_constructor_calls)
  assume free: "group_plugins s ''organization'' = None"
  with inst show look:
    "lookup_group_plugin s (Some ''organization'') = Some DefaultOrganizationForm"
    by (simp add: lookup_group_plugin_def)
  from look show
    "fst (call_lookups (replicate n (Lookup_group_plugin (Some ''organization''))) s) =
       replicate n (Returned_group_form (Some DefaultOrganizationForm))"
    using call_lookups_unchanged [of "replicate n (Lookup_group_plugin (Some ''organization''))" s]
    by (simp add: map_replicate_const)
next
  show "snd (call_lookups cs r) = r"
    using call_lookups_unchanged [of cs r] by simp
  then show "constructor_calls (snd (call_lookups cs r)) = constructor_calls r"
    by simp
qed

theorem default_installed_by_registration_witness:
  "default_package_plugin
     (globals_after (register_package_plugins [dataset_plugin_d] module_globals))
     = Some DefaultDatasetForm \<and>
   constructor_calls
     (globals_after (register_package_plugins [dataset_plugin_d] module_globals))
     = [Class_DefaultDatasetForm] \<and>
   fst (call_lookups [Lookup_package_plugin None, Lookup_package_plugin None]
     (globals_after (register_package_plugins [dataset_plugin_d] module_globals)))
     = [Returned_dataset_form (Some DefaultDatasetForm),
        Returned_dataset_form (Some DefaultDatasetForm)] \<and>
   default_group_plugin
     (globals_after (register_group_plugins [group_plugin_o] module_globals))
     = Some DefaultGroupForm \<and>
   default_organization_plugin
     (globals_after (register_group_plugins [group_plugin_g] module_globals))
     = Some DefaultOrganizationForm"
proof -
  have d: "register_package_plugins [dataset_plugin_d] module_globals =
    Inr (globals_after (register_package_plugins [dataset_plugin_d] module_globals))"
    by (simp add: example_defs)
  have o: "register_group_plugins [group_plugin_o] module_globals =
    Inr (globals_after (register_group_plugins [group_plugin_o] module_globals))"
    by (simp add: example_defs Let_def)
  have g: "register_group_plugins [group_plugin_g] module_globals =
    Inr (globals_after (register_group_plugins [group_plugin_g] module_globals))"
    by (simp add: example_defs Let_def)
  have nd: "default_package_plugin module_globals = None \<and>
      (\<forall>p \<in> set [dataset_plugin_d]. \<not> dataset_is_fallback p)"
    by (simp add: example_defs)
  have no: "default_group_plugin module_globals = None \<and>
      (\<forall>p \<in> set [group_plugin_o]. group_is_fallback p \<longrightarrow> is_organization p)"
    by (simp add: example_defs)
  have ng: "default_organization_plugin module_globals = None \<and>
      (\<forall>p \<in> set [group_plugin_g]. group_is_fallback p \<longrightarrow> \<not> is_organization p)"
    by (simp add: example_defs)
  from default_installed_by_registration
    [of "[dataset_plugin_d]" module_globals _ 2 "[group_plugin_o]" module_globals _ "[]"]
    d o nd no
  have one: "default_package_plugin
     (globals_after (register_package_plugins [dataset_plugin_d] module_globals))
     = Some DefaultDatasetForm"
    "constructor_calls
     (globals_after (register_package_plugins [dataset_plugin_d] module_globals))
     = Class_DefaultDatasetForm # constructor_calls module_globals"
    "fst (call_lookups (replicate 2 (Lookup_package_plugin None))
     (globals_after (register_package_plugins [dataset_plugin_d] module_globals)))
     = replicate 2 (Returned_dataset_form (Some DefaultDatasetForm))"
    "default_group_plugin
     (globals_after (register_group_plugins [group_plugin_o] module_globals))
     = Some DefaultGroupForm"
    by blast+
  from default_installed_by_registration
    [of "[]" module_globals _ 0 "[group_plugin_g]" module_globals _ "[]"] g ng
  have two: "default_organization_plugin
     (globals_after (register_group_plugins [group_plugin_g] module_globals))
     = Some DefaultOrganizationForm"
    by blast
  from one two show ?thesis
    by (simp add: module_globals_def numeral_2_eq_2)
qed

text \<open>
  Claim C7 as stated fails: when registration returns, before any lookup, the
  default provider is already in the slot and its one construction has happened.
\<close>

theorem default_installed_before_lookup:
  "raised (register_package_plugins [] module_globals) = None \<and>
   default_package_plugin (globals_after (register_package_plugins [] module_globals))
     = Some DefaultDatasetForm \<and>
   constructor_calls (globals_after (register_package_plugins [] module_globals))
     = [Class_DefaultDatasetForm]"
  by (simp add: example_defs)

subsection \<open>Registrations that raise\<close>


lemma package_types_loop_free:
  "distinct ts \<Longrightarrow> \<forall>t \<in> set ts. package_plugins r t = None \<Longrightarrow>
   \<exists>r'. package_types_loop p ts r = Inr r'"
proof (induction ts arbitrary: r)
  case Nil
  show ?case by simp
next
  case (Cons t ts)
  let ?r = "r\<lparr>package_plugins := (package_plugins r)(t \<mapsto> DatasetPlugin p)\<rparr>"
  from Cons.prems have "distinct ts" "\<forall>u \<in> set ts. package_plugins ?r u = None"
    by auto
  from Cons.IH [OF this] Cons.prems(2) show ?case by simp
qed

lemma register_package_plugin_free:
  assumes "distinct (package_types p)"
    and "\<forall>t \<in> set (package_types p). package_plugins r t = None"
    and "register_package_plugin p r = Inl (e, r')"
  shows "e = More_than_one_fallback_IDatasetForm"
proof -
  have "package_types_loop p (package_types p) (r\<lparr>default_package_plugin := s\<rparr>) \<noteq> Inl (e, r')"
    for s
    using package_types_loop_free [of "package_types p" "r\<lparr>default_package_plugin := s\<rparr>" p]
      assms(1,2) by auto
  moreover have "package_types_loop p (package_types p) r \<noteq> Inl (e, r')"
    using package_types_loop_free [of "package_types p" r p] assms(1,2) by auto
  ultimately show ?thesis
    using assms(3) unfolding register_package_plugin_def
    by (simp split: if_splits option.splits)
qed

lemma package_plugins_loop_no_duplicates:
  "distinct (concat (map package_types ps)) \<Longrightarrow>
   \<forall>t \<in> set (concat (map package_types ps)). package_plugins r t = None \<Longrightarrow>
   package_plugins_loop ps r = Inl (e, r') \<Longrightarrow>
   e = More_than_one_fallback_IDatasetForm"
proof (induction ps arbitrary: r)
  case Nil
  then show ?case by simp
next
  case (Cons p ps)
  from Cons.prems(1) have d: "distinct (package_types p)"
    "distinct (concat (map package_types ps))"
    "set (package_types p) \<inter> set (concat (map package_types ps)) = {}"
    by auto
  from Cons.prems(2) have f: "\<forall>t \<in> set (package_types p). package_plugins r t = None"
    "\<forall>t \<in> set (concat (map package_types ps)). package_plugins r t = None"
    by auto
  show ?case
  proof (cases "register_package_plugin p r")
    case (Inl a)
    with Cons.prems(3) have "register_package_plugin p r = Inl (e, r')" by simp
    from register_package_plugin_free [OF d(1) f(1) this] show ?thesis .
  next
    case (Inr r1)
    have "\<forall>t \<in> set (concat (map package_types ps)). package_plugins r1 t = None"
    proof
      fix t assume t: "t \<in> set (concat (map package_types ps))"
      with d(3) have "t \<notin> set (package_types p)" by auto
      with register_package_plugin_returns(5) [OF Inr, of t] f(2) t
      show "package_plugins r1 t = None" by auto
    qed
    moreover from Cons.prems(3) Inr have "package_plugins_loop ps r1 = Inl (e, r')" by simp
    ultimately show ?thesis using Cons.IH [OF d(2)] by blast
  qed
qed

lemma package_plugins_loop_fallback_taken:
  "default_package_plugin r = Some c \<Longrightarrow> \<not> isinstance_DefaultDatasetForm c \<Longrightarrow>
   q \<in> set ps \<Longrightarrow> dataset_is_fallback q \<Longrightarrow>
   \<exists>e r'. package_plugins_loop ps r = Inl (e, r')"
proof (induction ps arbitrary: r)
  case Nil
  then show ?case by simp
next
  case (Cons p ps)
  show ?case
  proof (cases "register_package_plugin p r")
    case (Inl a)
    then show ?thesis by (cases a) simp
  next
    case (Inr r1)
    from register_package_plugin_returns(2) [OF Inr _ Cons.prems(1)] Cons.prems(2)
    have nf: "\<not> dataset_is_fallback p" by blast
    with register_package_plugin_returns(1) [OF Inr] Cons.prems(1)
    have slot: "default_package_plugin r1 = Some c" by simp
    from nf Cons.prems(3,4) have "q \<in> set ps" by auto
    from Cons.IH [OF slot Cons.prems(2) this Cons.prems(4)] Inr show ?thesis by simp
  qed
qed

lemma package_plugins_loop_two_fallbacks:
  assumes "ps = xs @ p # ys @ q # zs"
    and "dataset_is_fallback p" and "dataset_is_fallback q"
    and "\<not> extends_DefaultDatasetForm p"
  shows "\<exists>e r'. package_plugins_loop ps r = Inl (e, r')"
proof (cases "package_plugins_loop xs r")
  case (Inl a)
  with assms(1) show ?thesis
    by (cases a) (simp add: package_plugins_loop_append)
next
  case (Inr r1)
  show ?thesis
  proof (cases "register_package_plugin p r1")
    case (Inl a)
    with Inr assms(1) show ?thesis
      by (cases a) (simp add: package_plugins_loop_append)
  next
    case one: (Inr r2)
    from register_package_plugin_returns(1) [OF one] assms(2)
    have "default_package_plugin r2 = Some (DatasetPlugin p)" by simp
    from package_plugins_loop_fallback_taken [OF this _ _ assms(3), of "ys @ q # zs"] assms(4)
    obtain e r' where "package_plugins_loop (ys @ q # zs) r2 = Inl (e, r')" by auto
    with Inr one assms(1) show ?thesis
      by (simp add: package_plugins_loop_append)
  qed
qed

lemma register_package_plugins_raises:
  "package_plugins_loop ps r = Inl (e, r') \<Longrightarrow> register_package_plugins ps r = Inl (e, r')"
  by (simp add: register_package_plugins_def)



lemma group_types_loop_free:
  "distinct ts \<Longrightarrow> \<forall>t \<in> set ts. group_plugins r t = None \<Longrightarrow>
   \<exists>r'. group_types_loop p ts r = Inr r'"
proof (induction ts arbitrary: r)
  case Nil
  show ?case by simp
next
  case (Cons t ts)
  let ?r = "r\<lparr>group_plugins := (group_plugins r)(t \<mapsto> GroupPlugin p),
               group_controllers := (group_controllers r)(t \<mapsto> group_controller p)\<rparr>"
  from Cons.prems have "distinct ts" "\<forall>u \<in> set ts. group_plugins ?r u = None"
    by auto
  from Cons.IH [OF this] Cons.prems(2) show ?case by simp
qed

lemma register_group_plugin_free:
  assumes "distinct (group_types p)"
    and "\<forall>t \<in> set (group_types p). group_plugins r t = None"
    and "register_group_plugin p r = Inl (e, r')"
  shows "e = More_than_one_fallback_IGroupForm_organizations \<or>
         e = More_than_one_fallback_IGroupForm_groups"
proof -
  have "group_types_loop p (group_types p) (r\<lparr>default_group_plugin := s\<rparr>) \<noteq> Inl (e, r')"
    for s
    using group_types_loop_free [of "group_types p" "r\<lparr>default_group_plugin := s\<rparr>" p]
      assms(1,2) by auto
  moreover
  have "group_types_loop p (group_types p) (r\<lparr>default_organization_plugin := s\<rparr>) \<noteq> Inl (e, r')"
    for s
    using group_types_loop_free [of "group_types p" "r\<lparr>default_organization_plugin := s\<rparr>" p]
      assms(1,2) by auto
  moreover have "group_types_loop p (group_types p) r \<noteq> Inl (e, r')"
    using group_types_loop_free [of "group_types p" r p] assms(1,2) by auto
  ultimately show ?thesis
    using assms(3) unfolding register_group_plugin_def
    by (simp split: if_splits option.splits)
qed

lemma group_plugins_loop_no_duplicates:
  "distinct (concat (map group_types ps)) \<Longrightarrow>
   \<forall>t \<in> set (concat (map group_types ps)). group_plugins r t = None \<Longrightarrow>
   group_plugins_loop ps r = Inl (e, r') \<Longrightarrow>
   e = More_than_one_fallback_IGroupForm_organizations \<or>
   e = More_than_one_fallback_IGroupForm_groups"
proof (induction ps arbitrary: r)
  case Nil
  then show ?case by simp
next
  case (Cons p ps)
  from Cons.prems(1) have d: "distinct (group_types p)"
    "distinct (concat (map group_types ps))"
    "set (group_types p) \<inter> set (concat (map group_types ps)) = {}"
    by auto
  from Cons.prems(2) have f: "\<forall>t \<in> set (group_types p). group_plugins r t = None"
    "\<forall>t \<in> set (concat (map group_types ps)). group_plugins r t = None"
    by auto
  show ?case
  proof (cases "register_group_plugin p r")
    case (Inl a)
    with Cons.prems(3) have "register_group_plugin p r = Inl (e, r')" by simp
    from register_group_plugin_free [OF d(1) f(1) this] show ?thesis .
  next
    case (Inr r1)
    have "\<forall>t \<in> set (concat (map group_types ps)). group_plugins r1 t = None"
    proof
      fix t assume t: "t \<in> set (concat (map group_types ps))"
      with d(3) have "t \<notin> set (group_types p)" by auto
      with register_group_plugin_returns(7) [OF Inr, of t] f(2) t
      show "group_plugins r1 t = None" by auto
    qed
    moreover from Cons.prems(3) Inr have "group_plugins_loop ps r1 = Inl (e, r')" by simp
    ultimately show ?thesis using Cons.IH [OF d(2)] by blast
  qed
qed

lemma group_plugins_loop_group_fallback_taken:
  "default_group_plugin r = Some c \<Longrightarrow> \<not> isinstance_DefaultGroupForm c \<Longrightarrow>
   q \<in> set ps \<Longrightarrow> group_is_fallback q \<Longrightarrow> \<not> is_organization q \<Longrightarrow>
   \<exists>e r'. group_plugins_loop ps r = Inl (e, r')"
proof (induction ps arbitrary: r)
  case Nil
  then show ?case by simp
next
  case (Cons p ps)
  show ?case
  proof (cases "register_group_plugin p r")
    case (Inl a)
    then show ?thesis by (cases a) simp
  next
    case (Inr r1)
    from register_group_plugin_returns(3) [OF Inr _ _ Cons.prems(1)] Cons.prems(2)
    have nf: "\<not> (group_is_fallback p \<and> \<not> is_organization p)" by blast
    with register_group_plugin_returns(1) [OF Inr] Cons.prems(1)
    have slot: "default_group_plugin r1 = Some c" by simp
    from nf Cons.prems(3,4,5) have "q \<in> set ps" by auto
    from Cons.IH [OF slot Cons.prems(2) this Cons.prems(4,5)] Inr show ?thesis by simp
  qed
qed

lemma group_plugins_loop_organization_fallback_taken:
  "default_organization_plugin r = Some c \<Longrightarrow> \<not> isinstance_DefaultOrganizationForm c \<Longrightarrow>
   q \<in> set ps \<Longrightarrow> group_is_fallback q \<Longrightarrow> is_organization q \<Longrightarrow>
   \<exists>e r'. group_plugins_loop ps r = Inl (e, r')"
proof (induction ps arbitrary: r)
  case Nil
  then show ?case by simp
next
  case (Cons p ps)
  show ?case
  proof (cases "register_group_plugin p r")
    case (Inl a)
    then show ?thesis by (cases a) simp
  next
    case (Inr r1)
    from register_group_plugin_returns(4) [OF Inr _ _ Cons.prems(1)] Cons.prems(2)
    have nf: "\<not> (group_is_fallback p \<and> is_organization p)" by blast
    with register_group_plugin_returns(2) [OF Inr] Cons.prems(1)
    have slot: "default_organization_plugin r1 = Some c" by simp
    from nf Cons.prems(3,4,5) have "q \<in> set ps" by auto
    from Cons.IH [OF slot Cons.prems(2) this Cons.prems(4,5)] Inr show ?thesis by simp
  qed
qed

lemma group_plugins_loop_two_group_fallbacks:
  assumes "ps = xs @ p # ys @ q # zs"
    and "group_is_fallback p" "\<not> is_organization p"
    and "group_is_fallback q" "\<not> is_organization q"
    and "group_base_class p = NoDefaultBase"
  shows "\<exists>e r'. group_plugins_loop ps r = Inl (e, r')"
proof (cases "group_plugins_loop xs r")
  case (Inl a)
  with assms(1) show ?thesis
    by (cases a) (simp add: group_plugins_loop_append)
next
  case (Inr r1)
  show ?thesis
  proof (cases "register_group_plugin p r1")
    case (Inl a)
    with Inr assms(1) show ?thesis
      by (cases a) (simp add: group_plugins_loop_append)
  next
    case one: (Inr r2)
    from register_group_plugin_returns(1) [OF one] assms(2,3)
    have "default_group_plugin r2 = Some (GroupPlugin p)" by simp
    from group_plugins_loop_group_fallback_taken [OF this _ _ assms(4,5), of "ys @ q # zs"]
      assms(6)
    obtain e r' where "group_plugins_loop (ys @ q # zs) r2 = Inl (e, r')" by auto
    with Inr one assms(1) show ?thesis
      by (simp add: group_plugins_loop_append)
  qed
qed

lemma group_plugins_loop_two_organization_fallbacks:
  assumes "ps = xs @ p # ys @ q # zs"
    and "group_is_fallback p" "is_organization p"
    and "group_is_fallback q" "is_organization q"
    and "group_base_class p \<noteq> ExtendsDefaultOrganizationForm"
  shows "\<exists>e r'. group_plugins_loop ps r = Inl (e, r')"
proof (cases "group_plugins_loop xs r")
  case (Inl a)
  with assms(1) show ?thesis
    by (cases a) (simp add: group_plugins_loop_append)
next
  case (Inr r1)
  show ?thesis
  proof (cases "register_group_plugin p r1")
    case (Inl a)
    with Inr assms(1) show ?thesis
      by (cases a) (simp add: group_plugins_loop_append)
  next
    case one: (Inr r2)
    from register_group_plugin_returns(2) [OF one] assms(2,3)
    have "default_organization_plugin r2 = Some (GroupPlugin p)" by simp
    from group_plugins_loop_organization_fallback_taken
      [OF this _ _ assms(4,5), of "ys @ q # zs"] assms(6)
    obtain e r' where "group_plugins_loop (ys @ q # zs) r2 = Inl (e, r')" by auto
    with Inr one assms(1) show ?thesis
      by (simp add: group_plugins_loop_append)
  qed
qed

lemma register_group_plugin_raises_groups:
  "register_group_plugin p r = Inl (More_than_one_fallback_IGroupForm_groups, r') \<Longrightarrow>
   group_is_fallback p \<and> \<not> is_organization p \<and> default_group_plugin r \<noteq> None"
  unfolding register_group_plugin_def
  by (auto split: if_splits option.splits dest: group_types_loop_raises)

lemma register_group_plugin_raises_organizations:
  "register_group_plugin p r = Inl (More_than_one_fallback_IGroupForm_organizations, r') \<Longrightarrow>
   group_is_fallback p \<and> is_organization p \<and> default_organization_plugin r \<noteq> None"
  unfolding register_group_plugin_def
  by (auto split: if_splits option.splits dest: group_types_loop_raises)

lemma group_plugins_loop_raises_groups:
  "group_plugins_loop ps r = Inl (More_than_one_fallback_IGroupForm_groups, r') \<Longrightarrow>
   (if default_group_plugin r = None then 2 else 1)
     \<le> length (filter (\<lambda>p. group_is_fallback p \<and> \<not> is_organization p) ps)"
proof (induction ps arbitrary: r)
  case Nil
  then show ?case by simp
next
  case (Cons p ps)
  show ?case
  proof (cases "register_group_plugin p r")
    case (Inl a)
    with Cons.prems
    have "register_group_plugin p r = Inl (More_than_one_fallback_IGroupForm_groups, r')"
      by simp
    from register_group_plugin_raises_groups [OF this] show ?thesis by auto
  next
    case (Inr r1)
    with Cons.prems
    have "group_plugins_loop ps r1 = Inl (More_than_one_fallback_IGroupForm_groups, r')"
      by simp
    from Cons.IH [OF this] register_group_plugin_returns(1) [OF Inr]
    show ?thesis by (auto split: if_splits)
  qed
qed

lemma group_plugins_loop_raises_organizations:
  "group_plugins_loop ps r = Inl (More_than_one_fallback_IGroupForm_organizations, r') \<Longrightarrow>
   (if default_organization_plugin r = None then 2 else 1)
     \<le> length (filter (\<lambda>p. group_is_fallback p \<and> is_organization p) ps)"
proof (induction ps arbitrary: r)
  case Nil
  then show ?case by simp
next
  case (Cons p ps)
  show ?case
  proof (cases "register_group_plugin p r")
    case (Inl a)
    with Cons.prems
    have "register_group_plugin p r = Inl (More_than_one_fallback_IGroupForm_organizations, r')"
      by simp
    from register_group_plugin_raises_organizations [OF this] show ?thesis by auto
  next
    case (Inr r1)
    with Cons.prems
    have "group_plugins_loop ps r1 = Inl (More_than_one_fallback_IGroupForm_organizations, r')"
      by simp
    from Cons.IH [OF this] register_group_plugin_returns(2) [OF Inr]
    show ?thesis by (auto split: if_splits)
  qed
qed

lemma register_group_plugins_raises:
  "group_plugins_loop ps r = Inl (e, r') \<Longrightarrow> register_group_plugins ps r = Inl (e, r')"
  by (simp add: register_group_plugins_def)





text \<open>
  Claim C6, as amended. When two providers of one registration pass claim the
  fallback of the same axis (dataset; group; organization, a group provider's axis
  being its \<^verbatim>\<open>is_organization\<close> attribute or, without one, whether its controller is
  \<open>organization\<close>) and the class of the first does not derive from the axis's default
  form, registration raises: the error for more than one fallback, unless the error
  for an existing type is raised first, and always the former when the type-strings
  of the pass are distinct and new to the table. From empty fallback slots, a pass
  with at most one claim for the group axis and at most one for the organization
  axis raises neither fallback error, and returns when its type-strings are
  distinct and new.
\<close>

theorem second_fallback_raises:
  "(dps = xs @ p # ys @ q # zs \<and> dataset_is_fallback p \<and> dataset_is_fallback q \<and>
      \<not> extends_DefaultDatasetForm p \<longrightarrow>
      (\<exists>e r'. register_package_plugins dps r = Inl (e, r') \<and>
         (e = More_than_one_fallback_IDatasetForm \<or> (\<exists>u. e = Existing_IDatasetForm u)) \<and>
         (distinct (concat (map package_types dps)) \<and>
          (\<forall>u \<in> set (concat (map package_types dps)). package_plugins r u = None) \<longrightarrow>
            e = More_than_one_fallback_IDatasetForm))) \<and>
   (gps = gxs @ gp # gys @ gq # gzs \<and> group_is_fallback gp \<and> group_is_fallback gq \<and>
      ((is_organization gp \<and> is_organization gq \<and>
          group_base_class gp \<noteq> ExtendsDefaultOrganizationForm) \<or>
       (\<not> is_organization gp \<and> \<not> is_organization gq \<and>
          group_base_class gp = NoDefaultBase)) \<longrightarrow>
      (\<exists>e s'. register_group_plugins gps s = Inl (e, s') \<and>
         (e = More_than_one_fallback_IGroupForm_organizations \<or>
          e = More_than_one_fallback_IGroupForm_groups \<or> (\<exists>u. e = Existing_IGroupForm u)) \<and>
         (distinct (concat (map group_types gps)) \<and>
          (\<forall>u \<in> set (concat (map group_types gps)). group_plugins s u = None) \<longrightarrow>
            e = More_than_one_fallback_IGroupForm_organizations \<or>
            e = More_than_one_fallback_IGroupForm_groups))) \<and>
   (default_group_plugin s = None \<and> default_organization_plugin s = None \<and>
      length (filter (\<lambda>x. group_is_fallback x \<and> \<not> is_organization x) gps) \<le> 1 \<and>
      length (filter (\<lambda>x. group_is_fallback x \<and> is_organization x) gps) \<le> 1 \<longrightarrow>
      raised (register_group_plugins gps s) \<noteq> Some More_than_one_fallback_IGroupForm_groups \<and>
      raised (register_group_plugins gps s)
        \<noteq> Some More_than_one_fallback_IGroupForm_organizations \<and>
      (distinct (concat (map group_types gps)) \<and>
       (\<forall>u \<in> set (concat (map group_types gps)). group_plugins s u = None) \<longrightarrow>
         raised (register_group_plugins gps s) = None))"
proof (intro conjI impI)
  assume a: "dps = xs @ p # ys @ q # zs \<and> dataset_is_fallback p \<and> dataset_is_fallback q \<and>
      \<not> extends_DefaultDatasetForm p"
  then obtain e r' where loop: "package_plugins_loop dps r = Inl (e, r')"
    using package_plugins_loop_two_fallbacks [of dps xs p ys q zs r] by blast
  then have reg: "register_package_plugins dps r = Inl (e, r')"
    by (rule register_package_plugins_raises)
  from package_plugins_loop_raises [OF loop]
  have kind: "e = More_than_one_fallback_IDatasetForm \<or> (\<exists>u. e = Existing_IDatasetForm u)"
    by blast
  have "distinct (concat (map package_types dps)) \<and>
          (\<forall>u \<in> set (concat (map package_types dps)). package_plugins r u = None) \<longrightarrow>
            e = More_than_one_fallback_IDatasetForm"
    using package_plugins_loop_no_duplicates [OF _ _ loop] by blast
  with reg kind
  show "\<exists>e r'. register_package_plugins dps r = Inl (e, r') \<and>
         (e = More_than_one_fallback_IDatasetForm \<or> (\<exists>u. e = Existing_IDatasetForm u)) \<and>
         (distinct (concat (map package_types dps)) \<and>
          (\<forall>u \<in> set (concat (map package_types dps)). package_plugins r u = None) \<longrightarrow>
            e = More_than_one_fallback_IDatasetForm)"
    by blast
next
  assume a: "gps = gxs @ gp # gys @ gq # gzs \<and> group_is_fallback gp \<and> group_is_fallback gq \<and>
      ((is_organization gp \<and> is_organization gq \<and>
          group_base_class gp \<noteq> ExtendsDefaultOrganizationForm) \<or>
       (\<not> is_organization gp \<and> \<not> is_organization gq \<and>
          group_base_class gp = NoDefaultBase))"
  then obtain e s' where loop: "group_plugins_loop gps s = Inl (e, s')"
    using group_plugins_loop_two_organization_fallbacks [of gps gxs gp gys gq gzs s]
      group_plugins_loop_two_group_fallbacks [of gps gxs gp gys gq gzs s]
    by blast
  then have reg: "register_group_plugins gps s = Inl (e, s')"
    by (rule register_group_plugins_raises)
  from group_plugins_loop_raises [OF loop]
  have kind: "e = More_than_one_fallback_IGroupForm_organizations \<or>
          e = More_than_one_fallback_IGroupForm_groups \<or> (\<exists>u. e = Existing_IGroupForm u)"
    by blast
  have "distinct (concat (map group_types gps)) \<and>
          (\<forall>u \<in> set (concat (map group_types gps)). group_plugins s u = None) \<longrightarrow>
            e = More_than_one_fallback_IGroupForm_organizations \<or>
            e = More_than_one_fallback_IGroupForm_groups"
    using group_plugins_loop_no_duplicates [OF _ _ loop] by blast
  with reg kind
  show "\<exists>e s'. register_group_plugins gps s = Inl (e, s') \<and>
         (e = More_than_one_fallback_IGroupForm_organizations \<or>
          e = More_than_one_fallback_IGroupForm_groups \<or> (\<exists>u. e = Existing_IGroupForm u)) \<and>
         (distinct (concat (map group_types gps)) \<and>
          (\<forall>u \<in> set (concat (map group_types gps)). group_plugins s u = None) \<longrightarrow>
            e = More_than_one_fallback_IGroupForm_organizations \<or>
            e = More_than_one_fallback_IGroupForm_groups)"
    by blast
next
  assume a: "default_group_plugin s = None \<and> default_organization_plugin s = None \<and>
      length (filter (\<lambda>x. group_is_fallback x \<and> \<not> is_organization x) gps) \<le> 1 \<and>
      length (filter (\<lambda>x. group_is_fallback x \<and> is_organization x) gps) \<le> 1"
  have loop_reg: "raised (register_group_plugins gps s) = raised (group_plugins_loop gps s)"
    by (cases "group_plugins_loop gps s") (auto simp: register_group_plugins_def)
  show g: "raised (register_group_plugins gps s) \<noteq> Some More_than_one_fallback_IGroupForm_groups"
  proof
    assume "raised (register_group_plugins gps s) = Some More_than_one_fallback_IGroupForm_groups"
    with loop_reg obtain s' where
      "group_plugins_loop gps s = Inl (More_than_one_fallback_IGroupForm_groups, s')"
      by (cases "group_plugins_loop gps s") auto
    from group_plugins_loop_raises_groups [OF this] a show False by simp
  qed
  show o: "raised (register_group_plugins gps s)
        \<noteq> Some More_than_one_fallback_IGroupForm_organizations"
  proof
    assume "raised (register_group_plugins gps s)
      = Some More_than_one_fallback_IGroupForm_organizations"
    with loop_reg obtain s' where
      "group_plugins_loop gps s = Inl (More_than_one_fallback_IGroupForm_organizations, s')"
      by (cases "group_plugins_loop gps s") auto
    from group_plugins_loop_raises_organizations [OF this] a show False by simp
  qed
  assume d: "distinct (concat (map group_types gps)) \<and>
       (\<forall>u \<in> set (concat (map group_types gps)). group_plugins s u = None)"
  show "raised (register_group_plugins gps s) = None"
  proof (cases "group_plugins_loop gps s")
    case (Inl a)
    obtain e s' where "a = (e, s')" by (cases a)
    with Inl have l: "group_plugins_loop gps s = Inl (e, s')" by simp
    from group_plugins_loop_no_duplicates [OF _ _ l] d
    have "e = More_than_one_fallback_IGroupForm_organizations \<or>
          e = More_than_one_fallback_IGroupForm_groups" by blast
    with g o loop_reg l show ?thesis by auto
  next
    case (Inr s')
    with loop_reg show ?thesis by simp
  qed
qed

theorem second_fallback_raises_witness:
  "raised (register_package_plugins [dataset_plugin_a, dataset_plugin_c] module_globals)
     = Some More_than_one_fallback_IDatasetForm \<and>
   raised (register_group_plugins [group_plugin_g, group_plugin_h] module_globals)
     = Some More_than_one_fallback_IGroupForm_groups \<and>
   raised (register_group_plugins [group_plugin_o, group_plugin_m] module_globals)
     = Some More_than_one_fallback_IGroupForm_organizations \<and>
   raised (register_group_plugins [group_plugin_g, group_plugin_o] module_globals) = None"
proof -
  have h1: "[dataset_plugin_a, dataset_plugin_c] = [] @ dataset_plugin_a # [] @ dataset_plugin_c # [] \<and>
      dataset_is_fallback dataset_plugin_a \<and> dataset_is_fallback dataset_plugin_c \<and>
      \<not> extends_DefaultDatasetForm dataset_plugin_a"
    by (simp add: example_defs)
  have d1: "distinct (concat (map package_types [dataset_plugin_a, dataset_plugin_c])) \<and>
          (\<forall>u \<in> set (concat (map package_types [dataset_plugin_a, dataset_plugin_c])).
             package_plugins module_globals u = None)"
    by (simp add: example_defs)
  have h3: "default_group_plugin module_globals = None \<and>
      default_organization_plugin module_globals = None \<and>
      length (filter (\<lambda>x. group_is_fallback x \<and> \<not> is_organization x)
        [group_plugin_g, group_plugin_o]) \<le> 1 \<and>
      length (filter (\<lambda>x. group_is_fallback x \<and> is_organization x)
        [group_plugin_g, group_plugin_o]) \<le> 1"
    by (simp add: example_defs)
  have d3: "distinct (concat (map group_types [group_plugin_g, group_plugin_o])) \<and>
       (\<forall>u \<in> set (concat (map group_types [group_plugin_g, group_plugin_o])).
          group_plugins module_globals u = None)"
    by (simp add: example_defs)
  from second_fallback_raises
    [of "[dataset_plugin_a, dataset_plugin_c]" "[]" dataset_plugin_a "[]" dataset_plugin_c "[]"
      module_globals "[group_plugin_g, group_plugin_h]" "[]" group_plugin_g "[]" group_plugin_h
      "[]" module_globals] h1
  obtain e r' where
    reg: "register_package_plugins [dataset_plugin_a, dataset_plugin_c] module_globals = Inl (e, r')"
    and imp: "distinct (concat (map package_types [dataset_plugin_a, dataset_plugin_c])) \<and>
          (\<forall>u \<in> set (concat (map package_types [dataset_plugin_a, dataset_plugin_c])).
             package_plugins module_globals u = None) \<longrightarrow>
          e = More_than_one_fallback_IDatasetForm"
    by blast
  from imp d1 have "e = More_than_one_fallback_IDatasetForm" by (rule mp)
  with reg
  have one: "raised (register_package_plugins [dataset_plugin_a, dataset_plugin_c] module_globals)
     = Some More_than_one_fallback_IDatasetForm"
    by simp
  from second_fallback_raises
    [of "[]" "[]" dataset_plugin_a "[]" dataset_plugin_c "[]"
      module_globals "[group_plugin_g, group_plugin_o]" "[]" group_plugin_g "[]" group_plugin_h
      "[]" module_globals] h3 d3
  have two: "raised (register_group_plugins [group_plugin_g, group_plugin_o] module_globals) = None"
    by blast
  have three: "raised (register_group_plugins [group_plugin_g, group_plugin_h] module_globals)
     = Some More_than_one_fallback_IGroupForm_groups"
   "raised (register_group_plugins [group_plugin_o, group_plugin_m] module_globals)
     = Some More_than_one_fallback_IGroupForm_organizations"
    by (simp_all add: example_defs)
  from one two three show ?thesis by blast
qed

text \<open>
  Claim C6 as stated fails: two providers that do not derive from the default
  class both claim the dataset fallback, and the error raised is the one for an
  existing type, declared by a provider that stands between them.
\<close>

theorem existing_type_raised_before_second_fallback:
  "dataset_is_fallback dataset_plugin_a \<and> \<not> extends_DefaultDatasetForm dataset_plugin_a \<and>
   dataset_is_fallback dataset_plugin_c \<and> \<not> extends_DefaultDatasetForm dataset_plugin_c \<and>
   raised (register_package_plugins [dataset_plugin_a, dataset_plugin_b, dataset_plugin_c]
     module_globals) = Some (Existing_IDatasetForm ''a'')"
  by (simp add: example_defs)

text \<open>
  A first claimant whose class derives from \<^verbatim>\<open>DefaultDatasetForm\<close> passes the
  \<^verbatim>\<open>isinstance\<close> test that is meant to recognise the built-in default: the second
  claim replaces it and registration returns.
\<close>

lemma derived_fallback_is_replaced:
  "dataset_is_fallback dataset_plugin_e \<and> dataset_is_fallback dataset_plugin_c \<and>
   raised (register_package_plugins [dataset_plugin_e, dataset_plugin_c] module_globals) = None \<and>
   default_package_plugin
     (globals_after (register_package_plugins [dataset_plugin_e, dataset_plugin_c] module_globals))
     = Some (DatasetPlugin dataset_plugin_c)"
  by (simp add: example_defs)

end
